theory Spec2Isabelle
  imports Main "HOL-Library.Signed_Division"
begin

section \<open>Data model of the router's collision core\<close>

text \<open>
  The collision predicate of \<^verbatim>\<open>pcbnew/router/pns_item.cpp\<close> compares items by pointer
  identity, so items live in an explicit store: an address is a natural number, a
  nullable pointer is an \<open>addr option\<close>, and reading through a pointer that holds no
  item is an error value. A value of the machine type \<^verbatim>\<open>int\<close> is an \<open>int\<close>; the sums
  and differences that the predicate computes are taken in 32-bit two's complement,
  \<open>int32\<close>, one operation at a time (signed overflow is undefined in the source; the
  compiled code wraps around). The division \<^verbatim>\<open>Width() / 2\<close> truncates towards zero and
  is written \<open>sdiv\<close>.
\<close>

type_synonym addr = nat

definition int32 :: "int \<Rightarrow> int" where
  "int32 x = (x + 2147483648) mod 4294967296 - 2147483648"

type_synonym VECTOR2I = "int \<times> int"

datatype PnsKind = ARC_T | LINE_T | SEGMENT_T | VIA_T | JOINT_T | SOLID_T | DIFF_PAIR_T | HOLE_T

text \<open>The board-object type tags that \<^verbatim>\<open>checkKeepout\<close> inspects; every other tag is
  \<open>PCB_OTHER_T\<close>.\<close>

datatype KICAD_T = PCB_ARC_T | PCB_TRACE_T | PCB_VIA_T | PCB_PAD_T | PCB_ZONE_T | PCB_OTHER_T

datatype PCB_LAYER_ID = F_Cu | B_Cu | Edge_Cuts | Other_Layer nat

text \<open>The keepout switches of a \<^verbatim>\<open>ZONE\<close> read by \<^verbatim>\<open>checkKeepout\<close>.\<close>

record ZONE =
  GetDoNotAllowTracks :: bool
  GetDoNotAllowVias :: bool
  GetDoNotAllowPads :: bool
  GetDoNotAllowFootprints :: bool

text \<open>A board object as the predicate sees it: its type tag, its layer, its parent
  footprint (a nullable pointer) and, when \<^verbatim>\<open>dynamic_cast<ZONE*>\<close> succeeds on it, its
  zone part.\<close>

record BOARD_ITEM =
  Type :: KICAD_T
  GetLayer :: PCB_LAYER_ID
  GetParentFootprint :: "addr option"
  asZONE :: "ZONE option"

record LAYER_RANGE =
  m_start :: int
  m_end :: int

text \<open>
  Modelled from the spec: the class \<^verbatim>\<open>LAYER_RANGE\<close> is declared in a header that is
  not part of the sources at hand. A layer range is an ordered pair of layer indices,
  inclusive; two ranges overlap when they share a layer, and a range of zero width
  denotes a single-layer item.
\<close>

definition Overlaps :: "LAYER_RANGE \<Rightarrow> LAYER_RANGE \<Rightarrow> bool" where
  "Overlaps a b = (m_end a \<ge> m_start b \<and> m_start a \<le> m_end b)"

definition IsMultilayer :: "LAYER_RANGE \<Rightarrow> bool" where
  "IsMultilayer a = (m_start a \<noteq> m_end a)"

text \<open>
  An item. \<open>shape\<close> is what \<^verbatim>\<open>Shape()\<close> returns (for a hole, the hole's shape),
  \<open>hole\<close> what \<^verbatim>\<open>Hole()\<close> returns, \<open>parentPadVia\<close> what \<^verbatim>\<open>ParentPadVia()\<close> returns and
  \<open>isFreePad\<close> what \<^verbatim>\<open>IsFreePad()\<close> returns; these accessors are declared in headers
  that are not part of the sources at hand, so their values are attributes of the item.
  \<open>width\<close> is \<^verbatim>\<open>Width()\<close> of a line or a segment, \<open>line_via\<close> is the via attached to the
  end of a line (\<^verbatim>\<open>EndsWithVia()\<close> holds when it is present, \<^verbatim>\<open>Via()\<close> is the item at
  that address), and the \<open>via_\<close> and \<open>seg_\<close> fields are read by \<^verbatim>\<open>comparePnsItems\<close> only.
\<close>

record 'sh ITEM =
  m_kind :: PnsKind
  m_net :: int
  m_layers :: LAYER_RANGE
  m_parent :: "BOARD_ITEM option"
  isFreePad :: bool
  shape :: 'sh
  hole :: "addr option"
  parentPadVia :: "addr option"
  width :: int
  line_via :: "addr option"
  via_diameter :: int
  via_drill :: int
  via_pos :: VECTOR2I
  seg_seg :: "VECTOR2I \<times> VECTOR2I"

type_synonym 'sh store = "addr \<rightharpoonup> 'sh ITEM"

text \<open>Modelled from the spec: \<^verbatim>\<open>ITEM::Layer()\<close>, declared in a header that is not part of
  the sources at hand, is the layer of a single-layer item: the first layer of its
  range.\<close>

definition Layer :: "'sh ITEM \<Rightarrow> int" where
  "Layer I = m_start (m_layers I)"

record OBSTACLE =
  m_head :: addr
  m_item :: addr
  m_clearance :: int

record COLLISION_SEARCH_OPTIONS =
  m_differentNetsOnly :: bool
  m_overrideClearance :: int

record COLLISION_SEARCH_CONTEXT =
  obstacles :: "OBSTACLE list"
  options :: COLLISION_SEARCH_OPTIONS

text \<open>
  Modelled from the spec: the ordering of \<^verbatim>\<open>OBSTACLE\<close> that the obstacle set uses is
  declared in a header that is not part of the sources at hand. The set de-duplicates
  equal (head, item) pairs: inserting a pair that is already present changes nothing.
\<close>

definition obstacles_insert :: "OBSTACLE \<Rightarrow> OBSTACLE list \<Rightarrow> OBSTACLE list" where
  "obstacles_insert obs xs =
     (if list_ex (\<lambda>o'. m_head o' = m_head obs \<and> m_item o' = m_item obs) xs then xs
      else xs @ [obs])"

text \<open>Modelled from the spec: the query scope of a node is the default one or
  "all rules"; the source names the second only.\<close>

datatype CollisionQueryScope = CQS_ALL_RULES | CQS_DEFAULT

text \<open>
  The collaborators of a query: the node with its rule resolver, the router interface
  reached through \<^verbatim>\<open>ROUTER::GetInstance()\<close> (absent when the router or its interface is
  null) and the shape layer. \<open>shape_Collide a b c\<close> is \<^verbatim>\<open>a->Collide( b, c )\<close>;
  \<open>shape_CollideAt a b c\<close> is the call that also asks for the actual distance and the
  contact point; it returns the contact point when the shapes collide (the distance is
  written by the shape layer and never read by the predicate).
\<close>

record 'sh ENV =
  ClearanceEpsilon :: int
  GetClearance :: "addr \<Rightarrow> addr \<Rightarrow> int"
  IsInNetTie :: "addr \<Rightarrow> bool"
  IsNetTieExclusion :: "addr \<Rightarrow> VECTOR2I \<Rightarrow> addr \<Rightarrow> bool"
  QueryEdgeExclusions :: "VECTOR2I \<Rightarrow> bool"
  GetCollisionQueryScope :: CollisionQueryScope
  IsFlashedOnLayer :: "(addr \<Rightarrow> int \<Rightarrow> bool) option"
  shape_Collide :: "'sh \<Rightarrow> 'sh \<Rightarrow> int \<Rightarrow> bool"
  shape_CollideAt :: "'sh \<Rightarrow> 'sh \<Rightarrow> int \<Rightarrow> VECTOR2I option"

datatype error = NullContext | InvalidPointer

text \<open>The state of a running query: what it does next, the flag \<^verbatim>\<open>collisionsFound\<close>
  and the caller's context.\<close>

datatype flow =
  Crash error
  | Return bool "COLLISION_SEARCH_CONTEXT option"
  | Continue bool "COLLISION_SEARCH_CONTEXT option"

section \<open>The pairwise test\<close>

text \<open>The lambda \<^verbatim>\<open>checkKeepout\<close> of \<^verbatim>\<open>ITEM::collideSimple\<close>; \<open>aKeepout\<close> is the board
  object of the zone and \<open>z\<close> its zone part.\<close>

definition checkKeepout :: "BOARD_ITEM \<Rightarrow> ZONE \<Rightarrow> BOARD_ITEM \<Rightarrow> bool" where
  "checkKeepout aKeepout z aOther =
     (if GetDoNotAllowTracks z \<and> (Type aOther = PCB_ARC_T \<or> Type aOther = PCB_TRACE_T) then True
      else if GetDoNotAllowVias z \<and> Type aOther = PCB_VIA_T then True
      else if GetDoNotAllowPads z \<and> Type aOther = PCB_PAD_T then True
      else if GetDoNotAllowFootprints z \<and> Type aOther = PCB_PAD_T then
        (GetParentFootprint aKeepout = None
         \<or> GetParentFootprint aKeepout \<noteq> GetParentFootprint aOther)
      else False)"

text \<open>\<^verbatim>\<open>zone && other->Parent() && !checkKeepout( zone, other->Parent() )\<close>, where \<open>zone\<close>
  is the dynamic cast of the first parent.\<close>

definition keepoutExit :: "BOARD_ITEM option \<Rightarrow> BOARD_ITEM option \<Rightarrow> bool" where
  "keepoutExit zoneParent otherParent =
     (case zoneParent of None \<Rightarrow> False
      | Some zp \<Rightarrow>
          (case asZONE zp of None \<Rightarrow> False
           | Some z \<Rightarrow>
               (case otherParent of None \<Rightarrow> False
                | Some op \<Rightarrow> \<not> checkKeepout zp z op)))"

text \<open>What each colliding sub-test does with its finding: with a context the obstacle is
  inserted and \<^verbatim>\<open>collisionsFound\<close> is set, without one the function returns true.\<close>

definition hit :: "COLLISION_SEARCH_CONTEXT option \<Rightarrow> OBSTACLE \<Rightarrow> flow" where
  "hit aCtx obs =
     (case aCtx of
        Some c \<Rightarrow> Continue True (Some (c\<lparr>obstacles := obstacles_insert obs (obstacles c)\<rparr>))
      | None \<Rightarrow> Return True None)"

definition andThen :: "flow \<Rightarrow> (bool \<Rightarrow> COLLISION_SEARCH_CONTEXT option \<Rightarrow> flow) \<Rightarrow> flow" where
  "andThen f g = (case f of Continue found c \<Rightarrow> g found c | Return b c \<Rightarrow> Return b c | Crash e \<Rightarrow> Crash e)"

text \<open>Sub-check (a): the hole of this item against the shape of the head.\<close>

definition holeCheckI ::
  "'sh store \<Rightarrow> 'sh ENV \<Rightarrow> addr \<Rightarrow> 'sh ITEM \<Rightarrow> addr \<Rightarrow> 'sh ITEM \<Rightarrow> int
     \<Rightarrow> bool \<Rightarrow> COLLISION_SEARCH_CONTEXT option \<Rightarrow> flow" where
  "holeCheckI mem env this I aHead H lineWidthH found aCtx =
     (case hole I of None \<Rightarrow> Continue found aCtx
      | Some holeI \<Rightarrow>
          (case mem holeI of None \<Rightarrow> Crash InvalidPointer
           | Some HI \<Rightarrow>
               if parentPadVia HI \<noteq> Some aHead \<and> holeI \<noteq> aHead then
                 (let holeClearance = GetClearance env this holeI in
                  if shape_Collide env (shape HI) (shape H)
                       (int32 (int32 (holeClearance + lineWidthH) - ClearanceEpsilon env))
                  then hit aCtx \<lparr>m_head = aHead, m_item = holeI, m_clearance = holeClearance\<rparr>
                  else Continue found aCtx)
               else Continue found aCtx))"

text \<open>Sub-check (b): the hole of the head against the shape of this item.\<close>

definition holeCheckH ::
  "'sh store \<Rightarrow> 'sh ENV \<Rightarrow> addr \<Rightarrow> 'sh ITEM \<Rightarrow> addr \<Rightarrow> 'sh ITEM \<Rightarrow> int
     \<Rightarrow> bool \<Rightarrow> COLLISION_SEARCH_CONTEXT option \<Rightarrow> flow" where
  "holeCheckH mem env this I aHead H lineWidthI found aCtx =
     (case hole H of None \<Rightarrow> Continue found aCtx
      | Some holeH \<Rightarrow>
          (case mem holeH of None \<Rightarrow> Crash InvalidPointer
           | Some HH \<Rightarrow>
               if parentPadVia HH \<noteq> Some this \<and> holeH \<noteq> this then
                 (let holeClearance = GetClearance env this holeH in
                  if shape_Collide env (shape HH) (shape I)
                       (int32 (int32 (holeClearance + lineWidthI) - ClearanceEpsilon env))
                  then hit aCtx \<lparr>m_head = holeH, m_item = this, m_clearance = holeClearance\<rparr>
                  else Continue found aCtx)
               else Continue found aCtx))"

text \<open>Sub-check (c): hole against hole.\<close>

definition holeCheckHoles ::
  "'sh store \<Rightarrow> 'sh ENV \<Rightarrow> 'sh ITEM \<Rightarrow> 'sh ITEM
     \<Rightarrow> bool \<Rightarrow> COLLISION_SEARCH_CONTEXT option \<Rightarrow> flow" where
  "holeCheckHoles mem env I H found aCtx =
     (case hole I of None \<Rightarrow> Continue found aCtx
      | Some holeI \<Rightarrow>
          (case hole H of None \<Rightarrow> Continue found aCtx
           | Some holeH \<Rightarrow>
               if holeI \<noteq> holeH then
                 (let holeClearance = GetClearance env holeI holeH in
                  case mem holeI of None \<Rightarrow> Crash InvalidPointer
                  | Some HI \<Rightarrow>
                      (case mem holeH of None \<Rightarrow> Crash InvalidPointer
                       | Some HH \<Rightarrow>
                           if shape_Collide env (shape HI) (shape HH)
                                (int32 (holeClearance - ClearanceEpsilon env))
                           then hit aCtx
                                  \<lparr>m_head = holeH, m_item = holeI, m_clearance = holeClearance\<rparr>
                           else Continue found aCtx))
               else Continue found aCtx))"

text \<open>The block of hole sub-checks, entered when the node asks for all rules or one of
  the two items is not flashed on the other's layer.\<close>

definition holeChecks ::
  "'sh store \<Rightarrow> 'sh ENV \<Rightarrow> addr \<Rightarrow> 'sh ITEM \<Rightarrow> addr \<Rightarrow> 'sh ITEM \<Rightarrow> int \<Rightarrow> int
     \<Rightarrow> bool \<Rightarrow> bool \<Rightarrow> COLLISION_SEARCH_CONTEXT option \<Rightarrow> flow" where
  "holeChecks mem env this I aHead H lineWidthI lineWidthH thisNotFlashed otherNotFlashed aCtx =
     (if GetCollisionQueryScope env = CQS_ALL_RULES \<or> (thisNotFlashed \<or> otherNotFlashed) then
        andThen (holeCheckI mem env this I aHead H lineWidthH False aCtx) (\<lambda>found1 c1.
        andThen (holeCheckH mem env this I aHead H lineWidthI found1 c1) (\<lambda>found2 c2.
        holeCheckHoles mem env I H found2 c2))
      else Continue False aCtx)"

text \<open>The four exits that keep an item from colliding with its own hole; \<open>None\<close> is a
  read through a hole pointer that holds no item.\<close>

definition ownHoleExit :: "'sh store \<Rightarrow> addr \<Rightarrow> 'sh ITEM \<Rightarrow> addr \<Rightarrow> 'sh ITEM \<Rightarrow> bool option" where
  "ownHoleExit mem this I aHead H =
     (case (case hole I of None \<Rightarrow> Some False
            | Some holeI \<Rightarrow> (case mem holeI of None \<Rightarrow> None
                            | Some HI \<Rightarrow> Some (Some aHead = parentPadVia HI))) of
        None \<Rightarrow> None
      | Some True \<Rightarrow> Some True
      | Some False \<Rightarrow>
          (case (case hole H of None \<Rightarrow> Some False
                 | Some holeH \<Rightarrow> (case mem holeH of None \<Rightarrow> None
                                 | Some HH \<Rightarrow> Some (Some this = parentPadVia HH))) of
             None \<Rightarrow> None
           | Some True \<Rightarrow> Some True
           | Some False \<Rightarrow>
               if hole H = Some this then Some True
               else if hole I = Some aHead then Some True
               else Some False))"

text \<open>The geometric test on the two shapes, slow or fast.\<close>

definition shapeTest ::
  "'sh ENV \<Rightarrow> addr \<Rightarrow> 'sh ITEM \<Rightarrow> addr \<Rightarrow> 'sh ITEM \<Rightarrow> int \<Rightarrow> int \<Rightarrow> int
     \<Rightarrow> bool \<Rightarrow> COLLISION_SEARCH_CONTEXT option \<Rightarrow> flow" where
  "shapeTest env this I aHead H lineWidthI lineWidthH clearance found aCtx =
     (let checkCastellation = (case m_parent I of None \<Rightarrow> False
                               | Some p \<Rightarrow> GetLayer p = Edge_Cuts);
          checkNetTie = IsInNetTie env this;
          margin = int32 (int32 (int32 (clearance + lineWidthH) + lineWidthI)
                            - ClearanceEpsilon env)
      in
        if checkCastellation \<or> checkNetTie then
          (case shape_CollideAt env (shape H) (shape I) margin of
             None \<Rightarrow> Continue found aCtx
           | Some pos \<Rightarrow>
               if checkCastellation \<and> QueryEdgeExclusions env pos then Return False aCtx
               else if checkNetTie \<and> IsNetTieExclusion env aHead pos this then Return False aCtx
               else hit aCtx \<lparr>m_head = aHead, m_item = this, m_clearance = clearance\<rparr>)
        else
          if shape_Collide env (shape H) (shape I) margin
          then hit aCtx \<lparr>m_head = aHead, m_item = this, m_clearance = clearance\<rparr>
          else Continue found aCtx)"

text \<open>Everything after the hole sub-checks: the exits for items that are not flashed,
  the clearance, the own-hole exits and the geometric test.\<close>

definition afterHoles ::
  "'sh store \<Rightarrow> 'sh ENV \<Rightarrow> addr \<Rightarrow> 'sh ITEM \<Rightarrow> addr \<Rightarrow> 'sh ITEM \<Rightarrow> int \<Rightarrow> int
     \<Rightarrow> bool \<Rightarrow> bool \<Rightarrow> bool \<Rightarrow> COLLISION_SEARCH_CONTEXT option \<Rightarrow> flow" where
  "afterHoles mem env this I aHead H lineWidthI lineWidthH thisNotFlashed otherNotFlashed
       found aCtx =
     (if \<not> IsMultilayer (m_layers H) \<and> thisNotFlashed then Return False aCtx
      else if \<not> IsMultilayer (m_layers I) \<and> otherNotFlashed then Return False aCtx
      else
        (let clearance =
               (case aCtx of
                  Some c \<Rightarrow> if m_overrideClearance (options c) \<ge> 0
                            then m_overrideClearance (options c)
                            else GetClearance env this aHead
                | None \<Rightarrow> GetClearance env this aHead)
         in case ownHoleExit mem this I aHead H of
              None \<Rightarrow> Crash InvalidPointer
            | Some True \<Rightarrow> Return False aCtx
            | Some False \<Rightarrow>
                if clearance \<ge> 0
                then shapeTest env this I aHead H lineWidthI lineWidthH clearance found aCtx
                else Continue found aCtx))"

text \<open>\<^verbatim>\<open>aCtx && aCtx->options.m_differentNetsOnly\<close>\<close>

definition differentNetsOnly :: "COLLISION_SEARCH_CONTEXT option \<Rightarrow> bool" where
  "differentNetsOnly aCtx =
     (case aCtx of None \<Rightarrow> False | Some c \<Rightarrow> m_differentNetsOnly (options c))"

text \<open>The function from its first filter on. The last line is \<^verbatim>\<open>return collisionsFound\<close>.\<close>

definition collideBody ::
  "'sh store \<Rightarrow> 'sh ENV \<Rightarrow> addr \<Rightarrow> 'sh ITEM \<Rightarrow> addr \<Rightarrow> 'sh ITEM
     \<Rightarrow> COLLISION_SEARCH_CONTEXT option \<Rightarrow> flow" where
  "collideBody mem env this I aHead H aCtx =
     (if aHead = this then Return False aCtx
      else
        (let lineWidthI = (if m_kind I = LINE_T then width I sdiv 2 else 0);
             lineWidthH = (if m_kind H = LINE_T then width H sdiv 2 else 0)
         in
           if differentNetsOnly aCtx \<and> m_net I = m_net H \<and> m_net I \<ge> 0 \<and> m_net H \<ge> 0
           then Return False aCtx
           else if differentNetsOnly aCtx \<and> (isFreePad I \<or> isFreePad H)
           then Return False aCtx
           else if \<not> Overlaps (m_layers I) (m_layers H) then Return False aCtx
           else if keepoutExit (m_parent I) (m_parent H) then Return False aCtx
           else if keepoutExit (m_parent H) (m_parent I) then Return False aCtx
           else
             (let thisNotFlashed = (case IsFlashedOnLayer env of None \<Rightarrow> False
                                    | Some f \<Rightarrow> \<not> f this (Layer H));
                  otherNotFlashed = (case IsFlashedOnLayer env of None \<Rightarrow> False
                                     | Some f \<Rightarrow> \<not> f aHead (Layer I))
              in
                andThen (holeChecks mem env this I aHead H lineWidthI lineWidthH
                           thisNotFlashed otherNotFlashed aCtx) (\<lambda>found1 c1.
                andThen (afterHoles mem env this I aHead H lineWidthI lineWidthH
                           thisNotFlashed otherNotFlashed found1 c1) (\<lambda>found2 c2.
                Return found2 c2)))))"

text \<open>
  \<^verbatim>\<open>ITEM::collideSimple\<close>. Before its first filter the function reads the shape and
  the hole of both items and then prints \<^verbatim>\<open>aCtx->obstacles.size()\<close>, with no test of
  \<open>aCtx\<close>: without a context that read goes through a null pointer. The other
  diagnostic prints (\<^verbatim>\<open>dumpObstacles\<close> and the \<^verbatim>\<open>printf\<close> calls on values already
  computed) change no state and are left out.
\<close>

definition collideSimple ::
  "'sh store \<Rightarrow> 'sh ENV \<Rightarrow> addr \<Rightarrow> addr \<Rightarrow> COLLISION_SEARCH_CONTEXT option
     \<Rightarrow> error + (bool \<times> COLLISION_SEARCH_CONTEXT option)" where
  "collideSimple mem env this aHead aCtx =
     (case mem this of None \<Rightarrow> Inl InvalidPointer
      | Some I \<Rightarrow>
          (case mem aHead of None \<Rightarrow> Inl InvalidPointer
           | Some H \<Rightarrow>
               (case aCtx of None \<Rightarrow> Inl NullContext
                | Some c \<Rightarrow>
                    (case collideBody mem env this I aHead H aCtx of
                       Crash e \<Rightarrow> Inl e
                     | Return b c' \<Rightarrow> Inr (b, c')
                     | Continue b c' \<Rightarrow> Inr (b, c')))))"

text \<open>\<^verbatim>\<open>line->EndsWithVia() && line->Via().collideSimple( other, ... )\<close> for an item
  that may be a line.\<close>

definition collideVia ::
  "'sh store \<Rightarrow> 'sh ENV \<Rightarrow> addr \<Rightarrow> addr \<Rightarrow> COLLISION_SEARCH_CONTEXT option
     \<Rightarrow> error + (bool \<times> COLLISION_SEARCH_CONTEXT option)" where
  "collideVia mem env line other aCtx =
     (case mem line of None \<Rightarrow> Inl InvalidPointer
      | Some L \<Rightarrow>
          if m_kind L = LINE_T then
            (case line_via L of None \<Rightarrow> Inr (False, aCtx)
             | Some via \<Rightarrow> collideSimple mem env via other aCtx)
          else Inr (False, aCtx))"

text \<open>\<^verbatim>\<open>ITEM::Collide\<close>\<close>

definition Collide ::
  "'sh store \<Rightarrow> 'sh ENV \<Rightarrow> addr \<Rightarrow> addr \<Rightarrow> COLLISION_SEARCH_CONTEXT option
     \<Rightarrow> error + (bool \<times> COLLISION_SEARCH_CONTEXT option)" where
  "Collide mem env this aOther aCtx =
     (case collideSimple mem env this aOther aCtx of
        Inl e \<Rightarrow> Inl e
      | Inr (True, c) \<Rightarrow> Inr (True, c)
      | Inr (False, c) \<Rightarrow>
          (case collideVia mem env this aOther c of
             Inl e \<Rightarrow> Inl e
           | Inr (True, c1) \<Rightarrow> Inr (True, c1)
           | Inr (False, c1) \<Rightarrow>
               (case collideVia mem env aOther this c1 of
                  Inl e \<Rightarrow> Inl e
                | Inr (True, c2) \<Rightarrow> Inr (True, c2)
                | Inr (False, c2) \<Rightarrow> Inr (False, c2))))"

section \<open>De-duplication of logged items\<close>

text \<open>\<^verbatim>\<open>comparePnsItems\<close> of \<^verbatim>\<open>qa/tools/pns/pns_log_file.cpp\<close>\<close>

definition comparePnsItems :: "'sh ITEM \<Rightarrow> 'sh ITEM \<Rightarrow> bool" where
  "comparePnsItems a b =
     (if m_kind a \<noteq> m_kind b then False
      else if m_net a \<noteq> m_net b then False
      else if m_layers a \<noteq> m_layers b then False
      else if m_kind a = VIA_T then
        (if via_diameter a \<noteq> via_diameter b then False
         else if via_drill a \<noteq> via_drill b then False
         else if via_pos a \<noteq> via_pos b then False
         else True)
      else if m_kind a = SEGMENT_T then
        (if seg_seg a \<noteq> seg_seg b then False
         else if width a \<noteq> width b then False
         else True)
      else True)"

text \<open>
  A \<^verbatim>\<open>std::set<PNS::ITEM*>\<close> is a strictly increasing list of addresses. \<open>set_begin\<close>
  is the position of \<^verbatim>\<open>begin()\<close> (\<open>None\<close> is \<^verbatim>\<open>end()\<close>), \<open>set_next r\<close> is the
  position after the one that holds \<open>r\<close>, and \<open>set_insert\<close> leaves the positions of the
  other elements valid, as the container does.
\<close>

definition set_insert :: "addr \<Rightarrow> addr list \<Rightarrow> addr list" where
  "set_insert x rv = (if x \<in> set rv then rv else insort x rv)"

definition set_begin :: "addr list \<Rightarrow> addr option" where
  "set_begin rv = (case rv of [] \<Rightarrow> None | x # _ \<Rightarrow> Some x)"

definition set_next :: "addr \<Rightarrow> addr list \<Rightarrow> addr option" where
  "set_next r rv = List.find (\<lambda>x. r < x) rv"

text \<open>
  The inner loop of \<^verbatim>\<open>deduplicate\<close> over the result set, from the position \<open>cur\<close> on:
  a result item equal to the candidate sets \<^verbatim>\<open>isDuplicate\<close> and leaves the loop;
  otherwise the candidate is inserted, inside the loop, and the loop moves on. It
  returns \<^verbatim>\<open>isDuplicate\<close> and the result set.
\<close>

function dedupInner ::
  "'sh store \<Rightarrow> addr \<Rightarrow> addr list \<Rightarrow> addr option \<Rightarrow> error + (bool \<times> addr list)" where
  "dedupInner mem item rv None = Inr (False, rv)"
| "dedupInner mem item rv (Some ritem) =
     (case mem ritem of None \<Rightarrow> Inl InvalidPointer
      | Some R \<Rightarrow>
          (case mem item of None \<Rightarrow> Inl InvalidPointer
           | Some I \<Rightarrow>
               if comparePnsItems R I then Inr (True, rv)
               else dedupInner mem item (set_insert item rv)
                      (set_next ritem (set_insert item rv))))"
  by pat_completeness auto

definition dedupMeasure :: "addr \<Rightarrow> addr list \<Rightarrow> addr option \<Rightarrow> nat" where
  "dedupMeasure item rv cur =
     (case cur of None \<Rightarrow> 0
      | Some r \<Rightarrow> Suc (card {x \<in> insert item (set rv). r < x}))"

lemma set_next_greater: "set_next r rv = Some r' \<Longrightarrow> r < r' \<and> r' \<in> set rv"
  unfolding set_next_def by (auto simp: find_Some_iff)

lemma set_set_insert: "set (set_insert x rv) = insert x (set rv)"
  unfolding set_insert_def by (auto simp: set_insort_key)

lemma dedupMeasure_decreases:
  "dedupMeasure item (set_insert item rv) (set_next r (set_insert item rv))
     < dedupMeasure item rv (Some r)"
proof (cases "set_next r (set_insert item rv)")
  case None
  then show ?thesis by (simp add: dedupMeasure_def)
next
  case (Some r')
  let ?S = "insert item (set rv)"
  from set_next_greater [OF Some] have gr: "r < r'" and mem': "r' \<in> ?S"
    by (auto simp: set_set_insert)
  have "{x \<in> ?S. r' < x} \<subset> {x \<in> ?S. r < x}"
    using gr mem' by auto
  then have "card {x \<in> ?S. r' < x} < card {x \<in> ?S. r < x}"
    by (intro psubset_card_mono) auto
  then show ?thesis using Some by (simp add: dedupMeasure_def set_set_insert)
qed

termination dedupInner
  by (relation "measure (\<lambda>(mem, item, rv, cur). dedupMeasure item rv cur)")
     (simp_all add: dedupMeasure_decreases)

text \<open>The outer loop of \<^verbatim>\<open>deduplicate\<close> over the input vector.\<close>

fun dedupOuter :: "'sh store \<Rightarrow> addr list \<Rightarrow> addr list \<Rightarrow> error + addr list" where
  "dedupOuter mem [] rv = Inr rv"
| "dedupOuter mem (item # items) rv =
     (case dedupInner mem item rv (set_begin rv) of
        Inl e \<Rightarrow> Inl e
      | Inr (isDuplicate, rv') \<Rightarrow> dedupOuter mem items rv')"

text \<open>\<^verbatim>\<open>deduplicate\<close>: the result set starts empty.\<close>

definition deduplicate :: "'sh store \<Rightarrow> addr list \<Rightarrow> error + addr list" where
  "deduplicate mem items = dedupOuter mem items []"

section \<open>Predicates used to state the properties\<close>

text \<open>The via attached to the end of a line, when there is one, is an item of the
  store.\<close>

definition viaInStore :: "'sh store \<Rightarrow> 'sh ITEM \<Rightarrow> bool" where
  "viaInStore mem L =
     (if m_kind L = LINE_T
      then (case line_via L of None \<Rightarrow> True | Some v \<Rightarrow> mem v \<noteq> None)
      else True)"

text \<open>The via attached to the end of a line, when there is one, is an item of the
  store and carries the net of its line (a line gives its net to the via appended to
  it).\<close>

definition viaCarriesNet :: "'sh store \<Rightarrow> 'sh ITEM \<Rightarrow> bool" where
  "viaCarriesNet mem L =
     (if m_kind L = LINE_T
      then (case line_via L of None \<Rightarrow> True
            | Some v \<Rightarrow> (case mem v of None \<Rightarrow> False | Some V \<Rightarrow> m_net V = m_net L))
      else True)"

text \<open>The hole of an item, when it has one, is an item of the store.\<close>

definition holesInStore :: "'sh store \<Rightarrow> 'sh ITEM \<Rightarrow> bool" where
  "holesInStore mem I = (case hole I of None \<Rightarrow> True | Some h \<Rightarrow> mem h \<noteq> None)"

text \<open>An obstacle that a hole sub-check of the pair records: its item is the hole of
  this item, or its head is the hole of the head.\<close>

definition holeObstacle :: "'sh ITEM \<Rightarrow> 'sh ITEM \<Rightarrow> OBSTACLE \<Rightarrow> bool" where
  "holeObstacle I H ob = (Some (m_item ob) = hole I \<or> Some (m_head ob) = hole H)"

text \<open>
  What the hole sub-checks can do to a context \<open>c\<close>, giving \<open>c1\<close> and the flag
  \<open>found\<close>: the options stay, no obstacle is lost, every obstacle added is one of a
  hole sub-check, and the flag is set only when such an obstacle is in the set.
\<close>

definition holeOutcome ::
  "'sh ITEM \<Rightarrow> 'sh ITEM \<Rightarrow> COLLISION_SEARCH_CONTEXT \<Rightarrow> bool \<Rightarrow> COLLISION_SEARCH_CONTEXT \<Rightarrow> bool" where
  "holeOutcome I H c found c1 =
     (options c1 = options c
      \<and> set (obstacles c) \<subseteq> set (obstacles c1)
      \<and> (\<forall>ob \<in> set (obstacles c1). ob \<in> set (obstacles c) \<or> holeObstacle I H ob)
      \<and> (found \<longrightarrow> (\<exists>ob \<in> set (obstacles c1). holeObstacle I H ob)))"

section \<open>A board to run the definitions on\<close>

text \<open>
  Modelled from the spec: the Geometric Shape Layer is an external collaborator, of
  which the spec says that two shapes overlap iff their distance is less than
  \<open>r1 + r2 + clearance\<close>. The shapes of the examples are horizontal segments with
  round ends, \<open>Capsule x1 x2 y r\<close> from \<open>(x1, y)\<close> to \<open>(x2, y)\<close> with half-width
  \<open>r\<close>; a circle is a capsule with \<open>x1 = x2\<close>.
\<close>

datatype EX_SHAPE = Capsule int int int int

fun ex_dist_sq :: "EX_SHAPE \<Rightarrow> EX_SHAPE \<Rightarrow> int" where
  "ex_dist_sq (Capsule a1 a2 ay ar) (Capsule b1 b2 bY br) =
     (let dx = (if a2 < b1 then b1 - a2 else if b2 < a1 then a1 - b2 else 0);
          dy = ay - bY
      in dx * dx + dy * dy)"

fun ex_radius :: "EX_SHAPE \<Rightarrow> int" where
  "ex_radius (Capsule x1 x2 y r) = r"

definition ex_Collide :: "EX_SHAPE \<Rightarrow> EX_SHAPE \<Rightarrow> int \<Rightarrow> bool" where
  "ex_Collide a b clearance =
     (let min_dist = clearance + ex_radius a + ex_radius b
      in 0 < min_dist \<and> ex_dist_sq a b < min_dist * min_dist)"

text \<open>Modelled from the spec: the contact point reported with a collision, here the
  point of the other shape's axis that is nearest to the first shape's axis.\<close>

fun ex_contact :: "EX_SHAPE \<Rightarrow> EX_SHAPE \<Rightarrow> VECTOR2I" where
  "ex_contact (Capsule a1 a2 ay ar) (Capsule b1 b2 bY br) =
     ((if a2 < b1 then b1 else if b2 < a1 then b2 else max a1 b1), bY)"

definition ex_CollideAt :: "EX_SHAPE \<Rightarrow> EX_SHAPE \<Rightarrow> int \<Rightarrow> VECTOR2I option" where
  "ex_CollideAt a b clearance =
     (if ex_Collide a b clearance then Some (ex_contact a b) else None)"

text \<open>The rule resolver of the examples asks for a clearance of 5 between any two items,
  with an epsilon of 1; every item is flashed on every layer; the query scope is the
  default one.\<close>

definition ex_env :: "EX_SHAPE ENV" where
  "ex_env =
     \<lparr>ClearanceEpsilon = 1,
      GetClearance = (\<lambda>a b. 5),
      IsInNetTie = (\<lambda>a. False),
      IsNetTieExclusion = (\<lambda>a p b. False),
      QueryEdgeExclusions = (\<lambda>p. False),
      GetCollisionQueryScope = CQS_DEFAULT,
      IsFlashedOnLayer = Some (\<lambda>a l. True),
      shape_Collide = ex_Collide,
      shape_CollideAt = ex_CollideAt\<rparr>"

definition ex_track :: BOARD_ITEM where
  "ex_track = \<lparr>Type = PCB_TRACE_T, GetLayer = F_Cu, GetParentFootprint = None, asZONE = None\<rparr>"

definition ex_board_via :: BOARD_ITEM where
  "ex_board_via = \<lparr>Type = PCB_VIA_T, GetLayer = F_Cu, GetParentFootprint = None, asZONE = None\<rparr>"

definition ex_board_pad :: BOARD_ITEM where
  "ex_board_pad =
     \<lparr>Type = PCB_PAD_T, GetLayer = F_Cu, GetParentFootprint = Some 100, asZONE = None\<rparr>"

text \<open>A keepout zone that disallows vias and nothing else.\<close>

definition ex_no_vias_zone :: BOARD_ITEM where
  "ex_no_vias_zone =
     \<lparr>Type = PCB_ZONE_T, GetLayer = F_Cu, GetParentFootprint = None,
      asZONE = Some \<lparr>GetDoNotAllowTracks = False, GetDoNotAllowVias = True,
                      GetDoNotAllowPads = False, GetDoNotAllowFootprints = False\<rparr>\<rparr>"

text \<open>A keepout zone of footprint 100 that disallows footprints and nothing else.\<close>

definition ex_footprint_zone :: BOARD_ITEM where
  "ex_footprint_zone =
     \<lparr>Type = PCB_ZONE_T, GetLayer = F_Cu, GetParentFootprint = Some 100,
      asZONE = Some \<lparr>GetDoNotAllowTracks = False, GetDoNotAllowVias = False,
                      GetDoNotAllowPads = False, GetDoNotAllowFootprints = True\<rparr>\<rparr>"

definition ex_item :: "EX_SHAPE ITEM" where
  "ex_item =
     \<lparr>m_kind = SOLID_T, m_net = - 1, m_layers = \<lparr>m_start = 0, m_end = 0\<rparr>,
      m_parent = None, isFreePad = False, shape = Capsule 0 0 0 0, hole = None,
      parentPadVia = None, width = 0, line_via = None, via_diameter = 0, via_drill = 0,
      via_pos = (0, 0), seg_seg = ((0, 0), (0, 0))\<rparr>"

text \<open>The segment and the via of the spec's end-to-end scenario: a segment of width 10
  from (0,0) to (100,0) on layer 0, net 1, and a via of diameter 20 at (50,5) on layers
  0 to 3, net 2, with its hole.\<close>

definition ex_segment :: "EX_SHAPE ITEM" where
  "ex_segment =
     ex_item\<lparr>m_kind := SEGMENT_T, m_net := 1, m_parent := Some ex_track,
             shape := Capsule 0 100 0 5, width := 10, seg_seg := ((0, 0), (100, 0))\<rparr>"

definition ex_via :: "EX_SHAPE ITEM" where
  "ex_via =
     ex_item\<lparr>m_kind := VIA_T, m_net := 2, m_layers := \<lparr>m_start = 0, m_end = 3\<rparr>,
             m_parent := Some ex_board_via, shape := Capsule 50 50 5 10, hole := Some 3,
             via_diameter := 20, via_drill := 8, via_pos := (50, 5)\<rparr>"

definition ex_via_hole :: "EX_SHAPE ITEM" where
  "ex_via_hole =
     ex_item\<lparr>m_kind := HOLE_T, m_net := 2, m_layers := \<lparr>m_start = 0, m_end = 3\<rparr>,
             m_parent := Some ex_board_via, shape := Capsule 50 50 5 4,
             parentPadVia := Some 2\<rparr>"

text \<open>A pad of a free pin, lying on the segment.\<close>

definition ex_free_pad :: "EX_SHAPE ITEM" where
  "ex_free_pad =
     ex_item\<lparr>m_parent := Some ex_board_pad, isFreePad := True, shape := Capsule 50 50 0 10\<rparr>"

text \<open>A line being routed, of width 10 from (0,40) to (100,40), net 1, that ends with a
  via at (100,40).\<close>

definition ex_line :: "EX_SHAPE ITEM" where
  "ex_line =
     ex_item\<lparr>m_kind := LINE_T, m_net := 1, shape := Capsule 0 100 40 0, width := 10,
             line_via := Some 6\<rparr>"

definition ex_line_via :: "EX_SHAPE ITEM" where
  "ex_line_via =
     ex_item\<lparr>m_kind := VIA_T, m_net := 1, m_layers := \<lparr>m_start = 0, m_end = 3\<rparr>,
             shape := Capsule 100 100 40 10, hole := Some 7,
             via_diameter := 20, via_drill := 8, via_pos := (100, 40)\<rparr>"

definition ex_line_via_hole :: "EX_SHAPE ITEM" where
  "ex_line_via_hole =
     ex_item\<lparr>m_kind := HOLE_T, m_net := 1, m_layers := \<lparr>m_start = 0, m_end = 3\<rparr>,
             shape := Capsule 100 100 40 4, parentPadVia := Some 6\<rparr>"

text \<open>The solid of the keepout zone, covering the segment and the via.\<close>

definition ex_keepout :: "EX_SHAPE ITEM" where
  "ex_keepout = ex_item\<lparr>m_parent := Some ex_no_vias_zone, shape := Capsule 0 100 0 50\<rparr>"

text \<open>A segment just placed by the router, with no board object yet, inside the
  keepout.\<close>

definition ex_new_segment :: "EX_SHAPE ITEM" where
  "ex_new_segment =
     ex_item\<lparr>m_kind := SEGMENT_T, m_net := 3, shape := Capsule 20 60 10 5, width := 10,
             seg_seg := ((20, 10), (60, 10))\<rparr>"

text \<open>A pad of net 3 lying on the segment.\<close>

definition ex_pad :: "EX_SHAPE ITEM" where
  "ex_pad =
     ex_item\<lparr>m_net := 3, m_parent := Some ex_board_pad, shape := Capsule 50 50 0 10\<rparr>"

text \<open>A second segment of net 1, overlapping the first.\<close>

definition ex_segment2 :: "EX_SHAPE ITEM" where
  "ex_segment2 =
     ex_item\<lparr>m_kind := SEGMENT_T, m_net := 1, m_parent := Some ex_track,
             shape := Capsule 50 150 0 5, width := 10, seg_seg := ((50, 0), (150, 0))\<rparr>"

text \<open>The solid of the footprint's keepout zone.\<close>

definition ex_footprint_keepout :: "EX_SHAPE ITEM" where
  "ex_footprint_keepout =
     ex_item\<lparr>m_parent := Some ex_footprint_zone, shape := Capsule 0 100 0 50\<rparr>"

text \<open>A piece of the board outline, on the edge-cuts layer, next to the line.\<close>

definition ex_board_edge :: BOARD_ITEM where
  "ex_board_edge =
     \<lparr>Type = PCB_OTHER_T, GetLayer = Edge_Cuts, GetParentFootprint = None, asZONE = None\<rparr>"

definition ex_edge :: "EX_SHAPE ITEM" where
  "ex_edge = ex_item\<lparr>m_parent := Some ex_board_edge, shape := Capsule 0 100 45 0\<rparr>"

definition ex_mem :: "EX_SHAPE store" where
  "ex_mem =
     [1 \<mapsto> ex_segment, 2 \<mapsto> ex_via, 3 \<mapsto> ex_via_hole, 4 \<mapsto> ex_free_pad,
      5 \<mapsto> ex_line, 6 \<mapsto> ex_line_via, 7 \<mapsto> ex_line_via_hole, 8 \<mapsto> ex_keepout,
      9 \<mapsto> ex_new_segment, 10 \<mapsto> ex_pad, 11 \<mapsto> ex_segment2,
      12 \<mapsto> ex_footprint_keepout, 13 \<mapsto> ex_edge]"

text \<open>An accumulation context with no obstacle yet and no override clearance; the
  second one asks for different nets only.\<close>

definition ex_ctx :: COLLISION_SEARCH_CONTEXT where
  "ex_ctx =
     \<lparr>obstacles = [], options = \<lparr>m_differentNetsOnly = False, m_overrideClearance = - 1\<rparr>\<rparr>"

definition ex_ctx_nets :: COLLISION_SEARCH_CONTEXT where
  "ex_ctx_nets =
     \<lparr>obstacles = [], options = \<lparr>m_differentNetsOnly = True, m_overrideClearance = - 1\<rparr>\<rparr>"

text \<open>A node that asks for all rules, whose resolver disables the clearance between
  the via and the segment.\<close>

definition ex_env_negative :: "EX_SHAPE ENV" where
  "ex_env_negative =
     ex_env\<lparr>GetClearance := (\<lambda>a b. if a = 2 \<and> b = 1 then - 1 else 5),
            GetCollisionQueryScope := CQS_ALL_RULES\<rparr>"

text \<open>A node that asks for all rules, in which the via is in a net-tie that excludes
  its contact with the segment.\<close>

definition ex_env_tie :: "EX_SHAPE ENV" where
  "ex_env_tie =
     ex_env\<lparr>IsInNetTie := (\<lambda>a. a = 2),
            IsNetTieExclusion := (\<lambda>h p t. h = 1 \<and> t = 2),
            GetCollisionQueryScope := CQS_ALL_RULES\<rparr>"

text \<open>A node with a castellation at the left end of the board outline.\<close>

definition ex_env_edge :: "EX_SHAPE ENV" where
  "ex_env_edge =
     ex_env\<lparr>QueryEdgeExclusions := (\<lambda>(x, y). 0 \<le> x \<and> x \<le> 10 \<and> 40 \<le> y \<and> y \<le> 50)\<rparr>"

lemmas ex_defs =
  ex_env_def ex_track_def ex_board_via_def ex_board_pad_def ex_no_vias_zone_def
  ex_footprint_zone_def ex_item_def ex_segment_def ex_via_def ex_via_hole_def
  ex_free_pad_def ex_line_def ex_line_via_def ex_line_via_hole_def ex_keepout_def
  ex_new_segment_def ex_pad_def ex_segment2_def ex_footprint_keepout_def ex_mem_def
  ex_ctx_def ex_ctx_nets_def ex_Collide_def ex_CollideAt_def ex_board_edge_def ex_edge_def
  ex_env_negative_def ex_env_tie_def ex_env_edge_def

lemmas collide_defs =
  collideSimple_def collideBody_def holeChecks_def holeCheckI_def holeCheckH_def
  holeCheckHoles_def afterHoles_def ownHoleExit_def shapeTest_def hit_def andThen_def
  keepoutExit_def checkKeepout_def differentNetsOnly_def Overlaps_def IsMultilayer_def
  Layer_def obstacles_insert_def Collide_def collideVia_def int32_def

section \<open>Lemmas on the parts of the pairwise test\<close>

text \<open>32-bit arithmetic: a value in range is itself, and wrapping after each operation
  gives the same as wrapping once at the end.\<close>

lemma int32_in_range:
  "- 2147483648 \<le> x \<Longrightarrow> x < 2147483648 \<Longrightarrow> int32 x = x"
  by (simp add: int32_def)

lemma int32_add_left: "int32 (int32 x + y) = int32 (x + y)"
proof -
  have a: "int32 x + y + 2147483648 = (x + 2147483648) mod 4294967296 + y"
    by (simp add: int32_def)
  have b: "x + y + 2147483648 = (x + 2147483648) + y"
    by simp
  have "(int32 x + y + 2147483648) mod 4294967296 = (x + y + 2147483648) mod 4294967296"
    unfolding a b by (rule mod_add_left_eq)
  then show ?thesis by (simp only: int32_def)
qed

lemma int32_diff_left: "int32 (int32 x - y) = int32 (x - y)"
  using int32_add_left [of x "- y"] by simp

lemma int32_margin:
  "int32 (int32 (int32 (clearance + lwH) + lwI) - eps) = int32 (clearance + lwI + lwH - eps)"
proof -
  have "int32 (int32 (int32 (clearance + lwH) + lwI) - eps)
          = int32 (int32 (clearance + lwH + lwI) - eps)"
    by (simp only: int32_add_left)
  also have "\<dots> = int32 (clearance + lwH + lwI - eps)"
    by (rule int32_diff_left)
  also have "clearance + lwH + lwI - eps = clearance + lwI + lwH - eps"
    by simp
  finally show ?thesis .
qed

lemma int32_wraps: "int32 (int32 (int32 (2147483647 + 5) + 0) - 1) = - 2147483645"
  by (simp add: int32_def)

lemma collideSimple_Some:
  assumes "mem this = Some I" and "mem aHead = Some H"
  shows "collideSimple mem env this aHead (Some c) =
           (case collideBody mem env this I aHead H (Some c) of
              Crash e \<Rightarrow> Inl e | Return b c' \<Rightarrow> Inr (b, c') | Continue b c' \<Rightarrow> Inr (b, c'))"
  using assms by (simp add: collideSimple_def)

lemma collideSimple_self:
  "mem a = Some A \<Longrightarrow> collideSimple mem env a a (Some c) = Inr (False, Some c)"
  by (simp add: collideSimple_def collideBody_def)

lemma collideVia_not_line:
  "mem a = Some A \<Longrightarrow> m_kind A \<noteq> LINE_T \<Longrightarrow> collideVia mem env a b aCtx = Inr (False, aCtx)"
  by (simp add: collideVia_def)

lemma Collide_from_parts:
  assumes "collideSimple mem env a b (Some c) = Inr (False, Some c)"
    and "collideVia mem env a b (Some c) = Inr (False, Some c)"
    and "collideVia mem env b a (Some c) = Inr (False, Some c)"
  shows "Collide mem env a b (Some c) = Inr (False, Some c)"
  using assms by (simp add: Collide_def)

lemma net_filter:
  assumes "mem a = Some A" "mem b = Some B" "m_differentNetsOnly (options c)"
    "m_net A = m_net B" "0 \<le> m_net A"
  shows "collideSimple mem env a b (Some c) = Inr (False, Some c)"
  using assms by (simp add: collideSimple_def collideBody_def differentNetsOnly_def)

lemma free_pad_exit:
  assumes "mem a = Some A" "mem b = Some B" "m_differentNetsOnly (options c)"
    "isFreePad A \<or> isFreePad B"
  shows "collideSimple mem env a b (Some c) = Inr (False, Some c)"
  using assms by (auto simp add: collideSimple_def collideBody_def differentNetsOnly_def)

lemma collideVia_same_net:
  assumes "mem a = Some A" "mem b = Some B" "m_differentNetsOnly (options c)"
    "m_net A = m_net B" "0 \<le> m_net A" "viaCarriesNet mem A"
  shows "collideVia mem env a b (Some c) = Inr (False, Some c)"
proof (cases "m_kind A = LINE_T")
  case False
  then show ?thesis using assms(1) by (simp add: collideVia_def)
next
  case True
  show ?thesis
  proof (cases "line_via A")
    case None
    then show ?thesis using assms(1) by (simp add: collideVia_def)
  next
    case (Some v)
    with True assms(6) obtain V where V: "mem v = Some V" "m_net V = m_net A"
      by (auto simp: viaCarriesNet_def split: option.splits)
    have "collideSimple mem env v b (Some c) = Inr (False, Some c)"
      using V(1) assms(2,3) by (rule net_filter) (use V(2) assms(4,5) in simp_all)
    then show ?thesis using assms(1) True Some by (simp add: collideVia_def)
  qed
qed

lemma collideVia_free_pad:
  assumes "mem a = Some A" "mem b = Some B" "m_differentNetsOnly (options c)"
    "isFreePad B" "viaInStore mem A"
  shows "collideVia mem env a b (Some c) = Inr (False, Some c)"
proof (cases "m_kind A = LINE_T")
  case False
  then show ?thesis using assms(1) by (simp add: collideVia_def)
next
  case True
  show ?thesis
  proof (cases "line_via A")
    case None
    then show ?thesis using assms(1) by (simp add: collideVia_def)
  next
    case (Some v)
    with True assms(5) obtain V where V: "mem v = Some V"
      by (auto simp: viaInStore_def split: option.splits)
    have "collideSimple mem env v b (Some c) = Inr (False, Some c)"
      using V assms(2,3) by (rule free_pad_exit) (use assms(4) in simp)
    then show ?thesis using assms(1) True Some by (simp add: collideVia_def)
  qed
qed

lemma ownHoleExit_head_is_hole:
  assumes "hole I = Some aHead" "mem aHead = Some H" "hole H = None"
  shows "ownHoleExit mem this I aHead H = Some True"
  using assms by (simp add: ownHoleExit_def split: bool.splits)

lemma ownHoleExit_this_is_hole:
  assumes "hole H = Some this" "mem this = Some I" "hole I = None"
  shows "ownHoleExit mem this I aHead H = Some True"
  using assms by (simp add: ownHoleExit_def split: bool.splits)

lemma afterHoles_own_hole:
  "ownHoleExit mem this I aHead H = Some True \<Longrightarrow>
   afterHoles mem env this I aHead H lwI lwH tnf onf found aCtx = Return False aCtx"
  by (simp add: afterHoles_def Let_def)

lemma holeChecks_head_is_hole:
  assumes "hole I = Some aHead" "mem aHead = Some H" "hole H = None"
  shows "holeChecks mem env this I aHead H lwI lwH tnf onf aCtx = Continue False aCtx"
  using assms
  by (simp add: holeChecks_def holeCheckI_def holeCheckH_def holeCheckHoles_def andThen_def)

lemma holeChecks_this_is_hole:
  assumes "hole H = Some this" "mem this = Some I" "hole I = None"
  shows "holeChecks mem env this I aHead H lwI lwH tnf onf aCtx = Continue False aCtx"
  using assms
  by (simp add: holeChecks_def holeCheckI_def holeCheckH_def holeCheckHoles_def andThen_def)

lemma collideBody_own_hole:
  assumes "\<And>lwI lwH tnf onf. holeChecks mem env this I aHead H lwI lwH tnf onf (Some c)
             = Continue False (Some c)"
    and "ownHoleExit mem this I aHead H = Some True"
  shows "collideBody mem env this I aHead H (Some c) = Return False (Some c)"
  using assms by (simp add: collideBody_def Let_def andThen_def afterHoles_own_hole)

lemma own_hole_this:
  assumes "mem p = Some P" "mem h = Some H" "hole P = Some h" "hole H = None"
  shows "collideSimple mem env p h (Some c) = Inr (False, Some c)"
proof -
  have "collideBody mem env p P h H (Some c) = Return False (Some c)"
    using assms
    by (intro collideBody_own_hole holeChecks_head_is_hole ownHoleExit_head_is_hole)
  then show ?thesis using assms by (simp add: collideSimple_def)
qed

lemma own_hole_head:
  assumes "mem p = Some P" "mem h = Some H" "hole P = Some h" "hole H = None"
  shows "collideSimple mem env h p (Some c) = Inr (False, Some c)"
proof -
  have "collideBody mem env h H p P (Some c) = Return False (Some c)"
    using assms
    by (intro collideBody_own_hole holeChecks_this_is_hole ownHoleExit_this_is_hole)
  then show ?thesis using assms by (simp add: collideSimple_def)
qed

lemma holeOutcome_refl: "holeOutcome I H c False c"
  by (simp add: holeOutcome_def)

lemma holeOutcome_False: "holeOutcome I H c found c1 \<Longrightarrow> holeOutcome I H c False c1"
  by (simp add: holeOutcome_def)

lemma set_obstacles_insert:
  "set (obstacles_insert ob xs) = set xs \<or> set (obstacles_insert ob xs) = insert ob (set xs)"
  by (simp add: obstacles_insert_def)

lemma obstacles_insert_has:
  "\<exists>ob' \<in> set (obstacles_insert ob xs). m_head ob' = m_head ob \<and> m_item ob' = m_item ob"
  by (auto simp: obstacles_insert_def list_ex_iff)

lemma holeOutcome_hit:
  assumes "holeOutcome I H c found c1" and "holeObstacle I H ob"
  shows "holeOutcome I H c True (c1\<lparr>obstacles := obstacles_insert ob (obstacles c1)\<rparr>)"
proof -
  obtain ob' where ob': "ob' \<in> set (obstacles_insert ob (obstacles c1))"
      "m_head ob' = m_head ob" "m_item ob' = m_item ob"
    using obstacles_insert_has by blast
  then have "holeObstacle I H ob'" using assms(2) by (simp add: holeObstacle_def)
  with ob'(1) assms set_obstacles_insert [of ob "obstacles c1"] show ?thesis
    unfolding holeOutcome_def by auto
qed

lemma holeCheckI_outcome:
  assumes "holesInStore mem I" and "holeOutcome I H c found c1"
  shows "\<exists>found' c2. holeCheckI mem env this I aHead H lw found (Some c1)
            = Continue found' (Some c2) \<and> holeOutcome I H c found' c2"
proof (cases "hole I")
  case None
  then show ?thesis using assms(2) by (simp add: holeCheckI_def)
next
  case (Some h)
  with assms(1) obtain HI where HI: "mem h = Some HI"
    by (auto simp: holesInStore_def)
  have ob: "holeObstacle I H \<lparr>m_head = aHead, m_item = h, m_clearance = k\<rparr>" for k
    using Some by (simp add: holeObstacle_def)
  show ?thesis
    using Some HI assms(2) holeOutcome_hit [OF assms(2) ob]
    by (auto simp: holeCheckI_def hit_def Let_def)
qed

lemma holeCheckH_outcome:
  assumes "holesInStore mem H" and "holeOutcome I H c found c1"
  shows "\<exists>found' c2. holeCheckH mem env this I aHead H lw found (Some c1)
            = Continue found' (Some c2) \<and> holeOutcome I H c found' c2"
proof (cases "hole H")
  case None
  then show ?thesis using assms(2) by (simp add: holeCheckH_def)
next
  case (Some h)
  with assms(1) obtain HH where HH: "mem h = Some HH"
    by (auto simp: holesInStore_def)
  have ob: "holeObstacle I H \<lparr>m_head = h, m_item = this, m_clearance = k\<rparr>" for k
    using Some by (simp add: holeObstacle_def)
  show ?thesis
    using Some HH assms(2) holeOutcome_hit [OF assms(2) ob]
    by (auto simp: holeCheckH_def hit_def Let_def)
qed

lemma holeCheckHoles_outcome:
  assumes "holesInStore mem I" and "holesInStore mem H" and "holeOutcome I H c found c1"
  shows "\<exists>found' c2. holeCheckHoles mem env I H found (Some c1)
            = Continue found' (Some c2) \<and> holeOutcome I H c found' c2"
proof (cases "hole I")
  case None
  then show ?thesis using assms(3) by (simp add: holeCheckHoles_def)
next
  case hI: (Some hi)
  show ?thesis
  proof (cases "hole H")
    case None
    then show ?thesis using hI assms(3) by (simp add: holeCheckHoles_def)
  next
    case hH: (Some hh)
    from assms(1) hI obtain HI where HI: "mem hi = Some HI"
      by (auto simp: holesInStore_def)
    from assms(2) hH obtain HH where HH: "mem hh = Some HH"
      by (auto simp: holesInStore_def)
    have ob: "holeObstacle I H \<lparr>m_head = hh, m_item = hi, m_clearance = k\<rparr>" for k
      using hI by (simp add: holeObstacle_def)
    show ?thesis
      using hI hH HI HH assms(3) holeOutcome_hit [OF assms(3) ob]
      by (auto simp: holeCheckHoles_def hit_def Let_def)
  qed
qed

lemma holeChecks_outcome:
  assumes "holesInStore mem I" and "holesInStore mem H"
  shows "\<exists>found c1. holeChecks mem env this I aHead H lwI lwH tnf onf (Some c)
            = Continue found (Some c1) \<and> holeOutcome I H c found c1"
proof (cases "GetCollisionQueryScope env = CQS_ALL_RULES \<or> (tnf \<or> onf)")
  case False
  then show ?thesis using holeOutcome_refl by (auto simp: holeChecks_def)
next
  case True
  obtain f1 c1 where 1: "holeCheckI mem env this I aHead H lwH False (Some c)
      = Continue f1 (Some c1)" "holeOutcome I H c f1 c1"
    using holeCheckI_outcome [OF assms(1) holeOutcome_refl] by blast
  obtain f2 c2 where 2: "holeCheckH mem env this I aHead H lwI f1 (Some c1)
      = Continue f2 (Some c2)" "holeOutcome I H c f2 c2"
    using holeCheckH_outcome [OF assms(2) 1(2)] by blast
  obtain f3 c3 where 3: "holeCheckHoles mem env I H f2 (Some c2)
      = Continue f3 (Some c3)" "holeOutcome I H c f3 c3"
    using holeCheckHoles_outcome [OF assms 2(2)] by blast
  show ?thesis using True 1 2 3 by (simp add: holeChecks_def andThen_def)
qed

lemma holeChecks_no_holes:
  assumes "hole I = None" and "hole H = None"
  shows "holeChecks mem env this I aHead H lwI lwH tnf onf aCtx = Continue False aCtx"
  using assms
  by (simp add: holeChecks_def holeCheckI_def holeCheckH_def holeCheckHoles_def andThen_def)

lemma collideBody_keepout:
  assumes "keepoutExit (m_parent I) (m_parent H) \<or> keepoutExit (m_parent H) (m_parent I)"
  shows "collideBody mem env this I aHead H (Some c) = Return False (Some c)"
  using assms by (auto simp: collideBody_def Let_def)

lemma keepout_exit_both:
  assumes "mem a = Some A" and "mem b = Some B"
    and "m_parent A = Some za" and "asZONE za = Some z" and "m_parent B = Some pb"
    and "\<not> checkKeepout za z pb"
  shows "collideSimple mem env a b (Some c) = Inr (False, Some c)
         \<and> collideSimple mem env b a (Some c) = Inr (False, Some c)"
proof -
  have k: "keepoutExit (m_parent A) (m_parent B)"
    using assms(3-6) by (simp add: keepoutExit_def)
  have 1: "collideBody mem env a A b B (Some c) = Return False (Some c)"
    using k by (intro collideBody_keepout) simp
  have 2: "collideBody mem env b B a A (Some c) = Return False (Some c)"
    using k by (intro collideBody_keepout) simp
  show ?thesis using 1 2 assms(1,2) by (simp add: collideSimple_Some)
qed

lemma ownHoleExit_defined:
  assumes "holesInStore mem I" and "holesInStore mem H"
  shows "\<exists>b. ownHoleExit mem this I aHead H = Some b"
  using assms
  by (auto simp: ownHoleExit_def holesInStore_def split: option.splits bool.splits)

lemma collideBody_cases:
  "collideBody mem env this I aHead H (Some c) = Return False (Some c)
   \<or> collideBody mem env this I aHead H (Some c) =
      andThen (holeChecks mem env this I aHead H
                 (if m_kind I = LINE_T then width I sdiv 2 else 0)
                 (if m_kind H = LINE_T then width H sdiv 2 else 0)
                 (case IsFlashedOnLayer env of None \<Rightarrow> False | Some f \<Rightarrow> \<not> f this (Layer H))
                 (case IsFlashedOnLayer env of None \<Rightarrow> False | Some f \<Rightarrow> \<not> f aHead (Layer I))
                 (Some c)) (\<lambda>found1 c1.
      andThen (afterHoles mem env this I aHead H
                 (if m_kind I = LINE_T then width I sdiv 2 else 0)
                 (if m_kind H = LINE_T then width H sdiv 2 else 0)
                 (case IsFlashedOnLayer env of None \<Rightarrow> False | Some f \<Rightarrow> \<not> f this (Layer H))
                 (case IsFlashedOnLayer env of None \<Rightarrow> False | Some f \<Rightarrow> \<not> f aHead (Layer I))
                 found1 c1) Return)"
  unfolding collideBody_def Let_def by (simp split: if_splits)

lemma afterHoles_negative:
  assumes "holesInStore mem I" and "holesInStore mem H"
    and "m_overrideClearance (options c1) < 0" and "GetClearance env this aHead < 0"
  shows "afterHoles mem env this I aHead H lwI lwH tnf onf found (Some c1) = Return False (Some c1)
         \<or> afterHoles mem env this I aHead H lwI lwH tnf onf found (Some c1)
             = Continue found (Some c1)"
proof -
  obtain b where "ownHoleExit mem this I aHead H = Some b"
    using ownHoleExit_defined [OF assms(1,2)] by blast
  then show ?thesis using assms(3,4) by (cases b) (simp_all add: afterHoles_def Let_def)
qed

lemma afterHoles_suppressed:
  assumes "holesInStore mem I" and "holesInStore mem H"
    and "clearance = (if 0 \<le> m_overrideClearance (options c1)
                      then m_overrideClearance (options c1)
                      else GetClearance env this aHead)"
    and "0 \<le> clearance"
    and "shape_CollideAt env (shape H) (shape I)
           (int32 (int32 (int32 (clearance + lwH) + lwI) - ClearanceEpsilon env)) = Some pos"
    and "((case m_parent I of None \<Rightarrow> False | Some p \<Rightarrow> GetLayer p = Edge_Cuts)
            \<and> QueryEdgeExclusions env pos)
         \<or> (IsInNetTie env this \<and> IsNetTieExclusion env aHead pos this)"
  shows "afterHoles mem env this I aHead H lwI lwH tnf onf found (Some c1)
           = Return False (Some c1)"
proof -
  obtain b where b: "ownHoleExit mem this I aHead H = Some b"
    using ownHoleExit_defined [OF assms(1,2)] by blast
  have st: "shapeTest env this I aHead H lwI lwH clearance found (Some c1)
              = Return False (Some c1)"
    using assms(5,6) by (auto simp: shapeTest_def Let_def)
  show ?thesis
    using b st assms(3,4) by (cases b) (auto simp: afterHoles_def Let_def)
qed

lemma ownHoleExit_holes:
  assumes "ownHoleExit mem this I aHead H = Some b"
  shows "holesInStore mem I"
  using assms by (auto simp: ownHoleExit_def holesInStore_def split: option.splits)

lemma ownHoleExit_holes_head:
  assumes "ownHoleExit mem this I aHead H = Some False"
  shows "holesInStore mem H"
  using assms
  by (auto simp: ownHoleExit_def holesInStore_def split: option.splits bool.splits if_splits)

lemma holeChecks_not_entered:
  assumes "GetCollisionQueryScope env \<noteq> CQS_ALL_RULES" and "\<not> tnf" and "\<not> onf"
  shows "holeChecks mem env this I aHead H lwI lwH tnf onf aCtx = Continue False aCtx"
  using assms by (simp add: holeChecks_def)

text \<open>
  The fast path in 32-bit arithmetic, with no bound on the values: the shape layer is
  asked at the sum clearance + halfWidth(this) + halfWidth(other) - clearanceEpsilon
  taken in 32-bit two's complement.
\<close>

lemma fast_path_int32:
  assumes "mem this = Some I" and "mem aHead = Some H" and "aHead \<noteq> this"
    and "\<not> (m_differentNetsOnly (options c)
             \<and> (m_net I = m_net H \<and> 0 \<le> m_net I \<or> isFreePad I \<or> isFreePad H))"
    and "Overlaps (m_layers I) (m_layers H)"
    and "\<not> keepoutExit (m_parent I) (m_parent H)"
    and "\<not> keepoutExit (m_parent H) (m_parent I)"
    and "thisNotFlashed = (case IsFlashedOnLayer env of None \<Rightarrow> False
                           | Some f \<Rightarrow> \<not> f this (Layer H))"
    and "otherNotFlashed = (case IsFlashedOnLayer env of None \<Rightarrow> False
                            | Some f \<Rightarrow> \<not> f aHead (Layer I))"
    and "IsMultilayer (m_layers H) \<or> \<not> thisNotFlashed"
    and "IsMultilayer (m_layers I) \<or> \<not> otherNotFlashed"
    and "ownHoleExit mem this I aHead H = Some False"
    and "clearance = (if 0 \<le> m_overrideClearance (options c)
                      then m_overrideClearance (options c)
                      else GetClearance env this aHead)"
    and "0 \<le> clearance"
    and "case m_parent I of None \<Rightarrow> True | Some p \<Rightarrow> GetLayer p \<noteq> Edge_Cuts"
    and "\<not> IsInNetTie env this"
  shows "\<exists>found c1.
           collideSimple mem env this aHead (Some c) =
             (if shape_Collide env (shape H) (shape I)
                   (int32 (clearance + (if m_kind I = LINE_T then width I sdiv 2 else 0)
                                     + (if m_kind H = LINE_T then width H sdiv 2 else 0)
                                     - ClearanceEpsilon env))
              then Inr (True, Some (c1\<lparr>obstacles :=
                     obstacles_insert \<lparr>m_head = aHead, m_item = this, m_clearance = clearance\<rparr>
                       (obstacles c1)\<rparr>))
              else Inr (found, Some c1))
           \<and> holeOutcome I H c found c1
           \<and> ((GetCollisionQueryScope env \<noteq> CQS_ALL_RULES
                  \<and> \<not> thisNotFlashed \<and> \<not> otherNotFlashed)
                \<or> (hole I = None \<and> hole H = None) \<longrightarrow> \<not> found \<and> c1 = c)"
proof -
  let ?lwI = "if m_kind I = LINE_T then width I sdiv 2 else 0"
  let ?lwH = "if m_kind H = LINE_T then width H sdiv 2 else 0"
  let ?obs = "\<lparr>m_head = aHead, m_item = this, m_clearance = clearance\<rparr>"
  have hs: "holesInStore mem I" "holesInStore mem H"
    using assms(12) by (rule ownHoleExit_holes, rule ownHoleExit_holes_head)
  obtain found c1 where hc: "holeChecks mem env this I aHead H ?lwI ?lwH
        thisNotFlashed otherNotFlashed (Some c) = Continue found (Some c1)"
      and out: "holeOutcome I H c found c1"
    using holeChecks_outcome [OF hs] by blast
  have same: "\<not> found \<and> c1 = c"
    if "(GetCollisionQueryScope env \<noteq> CQS_ALL_RULES \<and> \<not> thisNotFlashed \<and> \<not> otherNotFlashed)
        \<or> (hole I = None \<and> hole H = None)"
    using that hc
      holeChecks_not_entered [of env thisNotFlashed otherNotFlashed mem this I aHead H ?lwI ?lwH "Some c"]
      holeChecks_no_holes [of I H mem env this aHead ?lwI ?lwH thisNotFlashed otherNotFlashed "Some c"]
    by auto
  have cl: "clearance = (if 0 \<le> m_overrideClearance (options c1)
                      then m_overrideClearance (options c1)
                      else GetClearance env this aHead)"
    using out assms(13) by (simp add: holeOutcome_def)
  have cast: "(case m_parent I of None \<Rightarrow> False | Some p \<Rightarrow> GetLayer p = Edge_Cuts) = False"
    using assms(15) by (auto split: option.splits)
  have margin: "int32 (int32 (int32 (clearance + ?lwH) + ?lwI) - ClearanceEpsilon env)
                  = int32 (clearance + ?lwI + ?lwH - ClearanceEpsilon env)"
    by (rule int32_margin)
  have st: "shapeTest env this I aHead H ?lwI ?lwH clearance found (Some c1) =
      (if shape_Collide env (shape H) (shape I)
            (int32 (clearance + ?lwI + ?lwH - ClearanceEpsilon env))
       then Continue True (Some (c1\<lparr>obstacles := obstacles_insert ?obs (obstacles c1)\<rparr>))
       else Continue found (Some c1))"
    unfolding shapeTest_def Let_def cast margin using assms(16) by (simp add: hit_def)
  have ah: "afterHoles mem env this I aHead H ?lwI ?lwH thisNotFlashed otherNotFlashed
              found (Some c1)
              = shapeTest env this I aHead H ?lwI ?lwH clearance found (Some c1)"
    using assms(10,11,12,14) cl by (auto simp: afterHoles_def Let_def)
  have body: "collideBody mem env this I aHead H (Some c) =
      andThen (holeChecks mem env this I aHead H ?lwI ?lwH thisNotFlashed otherNotFlashed
                 (Some c)) (\<lambda>found1 c1.
      andThen (afterHoles mem env this I aHead H ?lwI ?lwH thisNotFlashed otherNotFlashed
                 found1 c1) Return)"
    unfolding collideBody_def Let_def assms(8,9)
    using assms(3-7) by (auto simp: differentNetsOnly_def)
  have "collideSimple mem env this aHead (Some c) =
             (if shape_Collide env (shape H) (shape I)
                   (int32 (clearance + ?lwI + ?lwH - ClearanceEpsilon env))
              then Inr (True, Some (c1\<lparr>obstacles := obstacles_insert ?obs (obstacles c1)\<rparr>))
              else Inr (found, Some c1))"
    unfolding collideSimple_Some [OF assms(1,2)] body hc
    by (simp add: andThen_def ah st)
  then show ?thesis using out same by blast
qed

section \<open>The free-pad filter\<close>

text \<open>
  C1, as amended. When the context asks for different nets only and one of the two
  items is a free pad, \<^verbatim>\<open>collideSimple\<close> reports no collision and records no obstacle,
  whatever the geometry and in both directions; so does \<^verbatim>\<open>Collide\<close> for a free pad
  (which is not a line) against any item whose attached via, if it is a line with one,
  is in the store.
\<close>

theorem free_pad_filter:
  assumes "mem a = Some A" and "mem b = Some B"
    and "m_differentNetsOnly (options c)"
    and "isFreePad A" and "m_kind A \<noteq> LINE_T" and "viaInStore mem B"
  shows "collideSimple mem env a b (Some c) = Inr (False, Some c)
         \<and> collideSimple mem env b a (Some c) = Inr (False, Some c)
         \<and> Collide mem env a b (Some c) = Inr (False, Some c)
         \<and> Collide mem env b a (Some c) = Inr (False, Some c)"
proof -
  have s1: "collideSimple mem env a b (Some c) = Inr (False, Some c)"
    using assms(1,2,3) by (rule free_pad_exit) (use assms(4) in simp)
  have s2: "collideSimple mem env b a (Some c) = Inr (False, Some c)"
    using assms(2,1,3) by (rule free_pad_exit) (use assms(4) in simp)
  have va: "collideVia mem env a x (Some c) = Inr (False, Some c)" for x
    using assms(1,5) by (rule collideVia_not_line)
  have vb: "collideVia mem env b a (Some c) = Inr (False, Some c)"
    using assms(2,1,3,4,6) by (rule collideVia_free_pad)
  show ?thesis using s1 s2 va vb by (simp add: Collide_from_parts)
qed

text \<open>The free pad against the line that ends with a via, in both directions.\<close>

theorem free_pad_filter_witness:
  "ex_mem 4 = Some ex_free_pad \<and> ex_mem 5 = Some ex_line
   \<and> m_differentNetsOnly (options ex_ctx_nets)
   \<and> isFreePad ex_free_pad \<and> m_kind ex_free_pad \<noteq> LINE_T \<and> viaInStore ex_mem ex_line
   \<and> collideSimple ex_mem ex_env 4 5 (Some ex_ctx_nets) = Inr (False, Some ex_ctx_nets)
   \<and> collideSimple ex_mem ex_env 5 4 (Some ex_ctx_nets) = Inr (False, Some ex_ctx_nets)
   \<and> Collide ex_mem ex_env 4 5 (Some ex_ctx_nets) = Inr (False, Some ex_ctx_nets)
   \<and> Collide ex_mem ex_env 5 4 (Some ex_ctx_nets) = Inr (False, Some ex_ctx_nets)"
proof -
  have h: "ex_mem 4 = Some ex_free_pad" "ex_mem 5 = Some ex_line"
    "m_differentNetsOnly (options ex_ctx_nets)"
    "isFreePad ex_free_pad" "m_kind ex_free_pad \<noteq> LINE_T" "viaInStore ex_mem ex_line"
    by (simp_all add: ex_defs viaInStore_def)
  from free_pad_filter [OF h, of ex_env] h show ?thesis by simp
qed

text \<open>
  The claim as stated fails: the free pad (net -1) lies on the segment, their shapes
  violate the clearance of 5, and without the different-nets option the pair collides;
  with the option \<^verbatim>\<open>Collide\<close> reports no collision and records nothing.
\<close>

theorem free_pad_counterexample:
  "isFreePad ex_free_pad \<and> m_net ex_free_pad < 0
   \<and> m_differentNetsOnly (options ex_ctx_nets)
   \<and> shape_Collide ex_env (shape ex_segment) (shape ex_free_pad)
         (GetClearance ex_env 4 1 - ClearanceEpsilon ex_env)
   \<and> Collide ex_mem ex_env 4 1 (Some ex_ctx)
       = Inr (True, Some (ex_ctx\<lparr>obstacles := [\<lparr>m_head = 1, m_item = 4, m_clearance = 5\<rparr>]\<rparr>))
   \<and> Collide ex_mem ex_env 4 1 (Some ex_ctx_nets) = Inr (False, Some ex_ctx_nets)"
  by (simp add: collide_defs ex_defs)

section \<open>No search context\<close>

text \<open>
  C2. Called with no search context, \<^verbatim>\<open>collideSimple\<close> does not run in first-hit mode:
  for every pair of items of the store it reads \<^verbatim>\<open>aCtx->obstacles.size()\<close> through the
  null pointer before its first filter. The claim asks for a well-defined result there;
  the function has none.
\<close>

theorem null_context_dereference:
  assumes "mem this = Some I" and "mem aHead = Some H"
  shows "collideSimple mem env this aHead None = Inl NullContext"
  using assms by (simp add: collideSimple_def)

text \<open>The segment and the via of the end-to-end scenario, with no context, through
  \<^verbatim>\<open>collideSimple\<close> and through \<^verbatim>\<open>Collide\<close>.\<close>

theorem null_context_dereference_witness:
  "ex_mem 1 = Some ex_segment \<and> ex_mem 2 = Some ex_via
   \<and> collideSimple ex_mem ex_env 1 2 None = Inl NullContext
   \<and> Collide ex_mem ex_env 1 2 None = Inl NullContext"
proof -
  have h: "ex_mem 1 = Some ex_segment" "ex_mem 2 = Some ex_via"
    by (simp_all add: ex_defs)
  from null_context_dereference [OF h, of ex_env] h show ?thesis
    by (simp add: Collide_def)
qed

section \<open>An item against itself\<close>

text \<open>
  C3, as amended. With a search context, \<^verbatim>\<open>collideSimple\<close> of an item against itself is
  false and records no obstacle, and so is \<^verbatim>\<open>Collide\<close> for every item that is not a
  line ending with an attached via.
\<close>

theorem self_non_collision:
  assumes "mem a = Some A" and "m_kind A \<noteq> LINE_T \<or> line_via A = None"
  shows "collideSimple mem env a a (Some c) = Inr (False, Some c)
         \<and> Collide mem env a a (Some c) = Inr (False, Some c)"
proof -
  have s: "collideSimple mem env a a (Some c) = Inr (False, Some c)"
    using assms(1) by (rule collideSimple_self)
  have v: "collideVia mem env a a (Some c) = Inr (False, Some c)"
    using assms by (auto simp: collideVia_def)
  show ?thesis using s v by (simp add: Collide_from_parts)
qed

theorem self_non_collision_witness:
  "ex_mem 2 = Some ex_via \<and> m_kind ex_via \<noteq> LINE_T
   \<and> collideSimple ex_mem ex_env 2 2 (Some ex_ctx) = Inr (False, Some ex_ctx)
   \<and> Collide ex_mem ex_env 2 2 (Some ex_ctx) = Inr (False, Some ex_ctx)"
proof -
  have h: "ex_mem 2 = Some ex_via" "m_kind ex_via \<noteq> LINE_T"
    by (simp_all add: ex_defs)
  from self_non_collision [of ex_mem 2 ex_via ex_env ex_ctx] h show ?thesis by simp
qed

text \<open>
  The claim as stated fails for a line that ends with a via: \<^verbatim>\<open>Collide\<close> tests the
  attached via against the other item, here the line itself, and the via sits on the
  end of its line.
\<close>

theorem self_collision_counterexample:
  "ex_mem 5 = Some ex_line \<and> m_kind ex_line = LINE_T \<and> line_via ex_line = Some 6
   \<and> Collide ex_mem ex_env 5 5 (Some ex_ctx)
       = Inr (True, Some (ex_ctx\<lparr>obstacles := [\<lparr>m_head = 5, m_item = 6, m_clearance = 5\<rparr>]\<rparr>))"
  by (simp add: collide_defs ex_defs)

section \<open>A pad or via and its hole\<close>

text \<open>
  C4. For every pad or via P whose hole is H (a hole has no hole of its own), with a
  search context, both \<^verbatim>\<open>H.Collide( P )\<close> and \<^verbatim>\<open>P.Collide( H )\<close> report no collision and
  leave the context as it was, whatever the shapes, the rules and the node.
\<close>

theorem hole_parent_exclusion:
  assumes "mem p = Some P" and "mem h = Some H"
    and "hole P = Some h" and "hole H = None"
    and "m_kind P = VIA_T \<or> m_kind P = SOLID_T" and "m_kind H = HOLE_T"
  shows "Collide mem env h p (Some c) = Inr (False, Some c)
         \<and> Collide mem env p h (Some c) = Inr (False, Some c)"
proof -
  have kp: "m_kind P \<noteq> LINE_T" and kh: "m_kind H \<noteq> LINE_T"
    using assms(5,6) by auto
  have vp: "collideVia mem env p x (Some c) = Inr (False, Some c)" for x
    using assms(1) kp by (rule collideVia_not_line)
  have vh: "collideVia mem env h x (Some c) = Inr (False, Some c)" for x
    using assms(2) kh by (rule collideVia_not_line)
  have s1: "collideSimple mem env p h (Some c) = Inr (False, Some c)"
    using assms(1-4) by (rule own_hole_this)
  have s2: "collideSimple mem env h p (Some c) = Inr (False, Some c)"
    using assms(1-4) by (rule own_hole_head)
  show ?thesis using vp vh s1 s2 by (simp add: Collide_from_parts)
qed

theorem hole_parent_exclusion_witness:
  "ex_mem 2 = Some ex_via \<and> ex_mem 3 = Some ex_via_hole
   \<and> hole ex_via = Some 3 \<and> hole ex_via_hole = None
   \<and> (m_kind ex_via = VIA_T \<or> m_kind ex_via = SOLID_T) \<and> m_kind ex_via_hole = HOLE_T
   \<and> shape_Collide ex_env_negative (shape ex_via_hole) (shape ex_via) 0
   \<and> Collide ex_mem ex_env_negative 3 2 (Some ex_ctx) = Inr (False, Some ex_ctx)
   \<and> Collide ex_mem ex_env_negative 2 3 (Some ex_ctx) = Inr (False, Some ex_ctx)"
proof -
  have h: "ex_mem 2 = Some ex_via" "ex_mem 3 = Some ex_via_hole"
    "hole ex_via = Some 3" "hole ex_via_hole = None"
    "m_kind ex_via = VIA_T \<or> m_kind ex_via = SOLID_T" "m_kind ex_via_hole = HOLE_T"
    by (simp_all add: ex_defs)
  have g: "shape_Collide ex_env_negative (shape ex_via_hole) (shape ex_via) 0"
    by (simp add: ex_defs)
  from hole_parent_exclusion [OF h, of ex_env_negative ex_ctx] h g show ?thesis by simp
qed

section \<open>The keepout filter\<close>

text \<open>
  C5, as amended. When the board object of one item is a zone and the other item has a
  board object, \<^verbatim>\<open>collideSimple\<close> reports no collision and records no obstacle, in
  both directions, whenever \<^verbatim>\<open>checkKeepout\<close> does not disallow the other board object;
  in particular when the zone disallows vias only and the other board object is not a
  via (a track, an arc), and when the zone disallows footprints but not pads and the
  other board object is a pad of the zone's own parent footprint. A zone that
  disallows vias does not exit on a board object that is a via.
\<close>

theorem keepout_filter:
  assumes "mem a = Some A" and "mem b = Some B"
    and "m_parent A = Some za" and "asZONE za = Some z" and "m_parent B = Some pb"
  shows "((\<not> checkKeepout za z pb)
          \<or> (GetDoNotAllowVias z \<and> \<not> GetDoNotAllowTracks z \<and> \<not> GetDoNotAllowPads z
              \<and> \<not> GetDoNotAllowFootprints z \<and> Type pb \<noteq> PCB_VIA_T)
          \<or> (GetDoNotAllowFootprints z \<and> \<not> GetDoNotAllowPads z \<and> Type pb = PCB_PAD_T
              \<and> GetParentFootprint za \<noteq> None
              \<and> GetParentFootprint pb = GetParentFootprint za)
          \<longrightarrow> collideSimple mem env a b (Some c) = Inr (False, Some c)
              \<and> collideSimple mem env b a (Some c) = Inr (False, Some c))
         \<and> (GetDoNotAllowVias z \<and> Type pb = PCB_VIA_T
              \<longrightarrow> \<not> keepoutExit (m_parent A) (m_parent B))"
proof (intro conjI impI)
  assume d: "(\<not> checkKeepout za z pb)
          \<or> (GetDoNotAllowVias z \<and> \<not> GetDoNotAllowTracks z \<and> \<not> GetDoNotAllowPads z
              \<and> \<not> GetDoNotAllowFootprints z \<and> Type pb \<noteq> PCB_VIA_T)
          \<or> (GetDoNotAllowFootprints z \<and> \<not> GetDoNotAllowPads z \<and> Type pb = PCB_PAD_T
              \<and> GetParentFootprint za \<noteq> None
              \<and> GetParentFootprint pb = GetParentFootprint za)"
  then have "\<not> checkKeepout za z pb"
    by (cases "GetParentFootprint pb") (auto simp: checkKeepout_def)
  with assms have r: "collideSimple mem env a b (Some c) = Inr (False, Some c)
         \<and> collideSimple mem env b a (Some c) = Inr (False, Some c)"
    by (rule keepout_exit_both)
  from r show "collideSimple mem env a b (Some c) = Inr (False, Some c)" by simp
  from r show "collideSimple mem env b a (Some c) = Inr (False, Some c)" by simp
next
  assume "GetDoNotAllowVias z \<and> Type pb = PCB_VIA_T"
  then show "\<not> keepoutExit (m_parent A) (m_parent B)"
    using assms(3-5) by (simp add: keepoutExit_def checkKeepout_def)
qed

text \<open>The no-vias keepout against the segment of the board, the footprint keepout
  against a pad of its own footprint, and the no-vias keepout against the via, which
  collide.\<close>

theorem keepout_filter_witness:
  "ex_mem 8 = Some ex_keepout \<and> ex_mem 1 = Some ex_segment
   \<and> m_parent ex_keepout = Some ex_no_vias_zone \<and> m_parent ex_segment = Some ex_track
   \<and> Type ex_track \<noteq> PCB_VIA_T
   \<and> collideSimple ex_mem ex_env 8 1 (Some ex_ctx) = Inr (False, Some ex_ctx)
   \<and> collideSimple ex_mem ex_env 1 8 (Some ex_ctx) = Inr (False, Some ex_ctx)
   \<and> ex_mem 12 = Some ex_footprint_keepout \<and> ex_mem 10 = Some ex_pad
   \<and> m_parent ex_footprint_keepout = Some ex_footprint_zone
   \<and> m_parent ex_pad = Some ex_board_pad
   \<and> GetParentFootprint ex_board_pad = GetParentFootprint ex_footprint_zone
   \<and> collideSimple ex_mem ex_env 12 10 (Some ex_ctx) = Inr (False, Some ex_ctx)
   \<and> collideSimple ex_mem ex_env 10 12 (Some ex_ctx) = Inr (False, Some ex_ctx)
   \<and> ex_mem 2 = Some ex_via \<and> m_parent ex_via = Some ex_board_via
   \<and> Type ex_board_via = PCB_VIA_T
   \<and> \<not> keepoutExit (m_parent ex_keepout) (m_parent ex_via)
   \<and> collideSimple ex_mem ex_env 8 2 (Some ex_ctx)
       = Inr (True, Some (ex_ctx\<lparr>obstacles := [\<lparr>m_head = 2, m_item = 8, m_clearance = 5\<rparr>]\<rparr>))"
proof -
  let ?nv = "\<lparr>GetDoNotAllowTracks = False, GetDoNotAllowVias = True,
             GetDoNotAllowPads = False, GetDoNotAllowFootprints = False\<rparr>"
  let ?fp = "\<lparr>GetDoNotAllowTracks = False, GetDoNotAllowVias = False,
             GetDoNotAllowPads = False, GetDoNotAllowFootprints = True\<rparr>"
  have h1: "ex_mem 8 = Some ex_keepout" "ex_mem 1 = Some ex_segment"
    "m_parent ex_keepout = Some ex_no_vias_zone" "asZONE ex_no_vias_zone = Some ?nv"
    "m_parent ex_segment = Some ex_track"
    by (simp_all add: ex_defs)
  have h2: "ex_mem 12 = Some ex_footprint_keepout" "ex_mem 10 = Some ex_pad"
    "m_parent ex_footprint_keepout = Some ex_footprint_zone"
    "asZONE ex_footprint_zone = Some ?fp" "m_parent ex_pad = Some ex_board_pad"
    by (simp_all add: ex_defs)
  have h3: "ex_mem 8 = Some ex_keepout" "ex_mem 2 = Some ex_via"
    "m_parent ex_keepout = Some ex_no_vias_zone" "asZONE ex_no_vias_zone = Some ?nv"
    "m_parent ex_via = Some ex_board_via"
    by (simp_all add: ex_defs)
  have t: "Type ex_track \<noteq> PCB_VIA_T" "Type ex_board_via = PCB_VIA_T"
    "GetParentFootprint ex_board_pad = GetParentFootprint ex_footprint_zone"
    "GetParentFootprint ex_footprint_zone \<noteq> None" "Type ex_board_pad = PCB_PAD_T"
    by (simp_all add: ex_defs)
  have via: "collideSimple ex_mem ex_env 8 2 (Some ex_ctx)
       = Inr (True, Some (ex_ctx\<lparr>obstacles := [\<lparr>m_head = 2, m_item = 8, m_clearance = 5\<rparr>]\<rparr>))"
    by (simp add: collide_defs ex_defs)
  from keepout_filter [OF h1, of ex_env ex_ctx] keepout_filter [OF h2, of ex_env ex_ctx]
       keepout_filter [OF h3, of ex_env ex_ctx] h1 h2 h3 t via
  show ?thesis by simp
qed

text \<open>
  The claim as stated fails: a segment that the router has just placed has no board
  object, the filter is skipped for it, and the keepout that disallows vias only
  collides with this item of kind segment.
\<close>

theorem keepout_counterexample:
  "ex_mem 8 = Some ex_keepout \<and> ex_mem 9 = Some ex_new_segment
   \<and> m_parent ex_keepout = Some ex_no_vias_zone
   \<and> asZONE ex_no_vias_zone
       = Some \<lparr>GetDoNotAllowTracks = False, GetDoNotAllowVias = True,
               GetDoNotAllowPads = False, GetDoNotAllowFootprints = False\<rparr>
   \<and> m_kind ex_new_segment = SEGMENT_T \<and> m_parent ex_new_segment = None
   \<and> collideSimple ex_mem ex_env 8 9 (Some ex_ctx)
       = Inr (True, Some (ex_ctx\<lparr>obstacles := [\<lparr>m_head = 9, m_item = 8, m_clearance = 5\<rparr>]\<rparr>))"
  by (simp add: collide_defs ex_defs)

section \<open>The margin of the fast path\<close>

text \<open>
  C6. On the fast path (a pair that passes the filters and the exits, with a clearance
  that is not negative, this item neither on the edge-cuts layer nor in a net-tie) the
  outcome of \<^verbatim>\<open>collideSimple\<close> is the answer of the shape layer at the margin clearance +
  halfWidth(this) + halfWidth(other) - clearanceEpsilon, where the half-width is
  \<^verbatim>\<open>Width() / 2\<close> for a line and 0 for every other kind, for every pair whose margin
  is a value of the machine type \<^verbatim>\<open>int\<close> (beyond that range the sum wraps around, as
  \<open>fast_path_int32\<close> states). A collision there is recorded as the obstacle (other,
  this, clearance), after what the hole sub-checks recorded; with no collision there
  the function returns the flag of the hole sub-checks, which is false, with the
  context as it was, when they are not entered or there is no hole.
\<close>

theorem fast_path_margin:
  assumes "mem this = Some I" and "mem aHead = Some H" and "aHead \<noteq> this"
    and "\<not> (m_differentNetsOnly (options c)
             \<and> (m_net I = m_net H \<and> 0 \<le> m_net I \<or> isFreePad I \<or> isFreePad H))"
    and "Overlaps (m_layers I) (m_layers H)"
    and "\<not> keepoutExit (m_parent I) (m_parent H)"
    and "\<not> keepoutExit (m_parent H) (m_parent I)"
    and "thisNotFlashed = (case IsFlashedOnLayer env of None \<Rightarrow> False
                           | Some f \<Rightarrow> \<not> f this (Layer H))"
    and "otherNotFlashed = (case IsFlashedOnLayer env of None \<Rightarrow> False
                            | Some f \<Rightarrow> \<not> f aHead (Layer I))"
    and "IsMultilayer (m_layers H) \<or> \<not> thisNotFlashed"
    and "IsMultilayer (m_layers I) \<or> \<not> otherNotFlashed"
    and "ownHoleExit mem this I aHead H = Some False"
    and "clearance = (if 0 \<le> m_overrideClearance (options c)
                      then m_overrideClearance (options c)
                      else GetClearance env this aHead)"
    and "0 \<le> clearance"
    and "case m_parent I of None \<Rightarrow> True | Some p \<Rightarrow> GetLayer p \<noteq> Edge_Cuts"
    and "\<not> IsInNetTie env this"
    and "- 2147483648 \<le> clearance + (if m_kind I = LINE_T then width I sdiv 2 else 0)
                                    + (if m_kind H = LINE_T then width H sdiv 2 else 0)
                                    - ClearanceEpsilon env"
    and "clearance + (if m_kind I = LINE_T then width I sdiv 2 else 0)
                   + (if m_kind H = LINE_T then width H sdiv 2 else 0)
                   - ClearanceEpsilon env < 2147483648"
  shows "\<exists>found c1.
           collideSimple mem env this aHead (Some c) =
             (if shape_Collide env (shape H) (shape I)
                   (clearance + (if m_kind I = LINE_T then width I sdiv 2 else 0)
                              + (if m_kind H = LINE_T then width H sdiv 2 else 0)
                              - ClearanceEpsilon env)
              then Inr (True, Some (c1\<lparr>obstacles :=
                     obstacles_insert \<lparr>m_head = aHead, m_item = this, m_clearance = clearance\<rparr>
                       (obstacles c1)\<rparr>))
              else Inr (found, Some c1))
           \<and> holeOutcome I H c found c1
           \<and> ((GetCollisionQueryScope env \<noteq> CQS_ALL_RULES
                  \<and> \<not> thisNotFlashed \<and> \<not> otherNotFlashed)
                \<or> (hole I = None \<and> hole H = None) \<longrightarrow> \<not> found \<and> c1 = c)"
  using fast_path_int32 [OF assms(1-16)]
  unfolding int32_in_range [OF assms(17,18)] .

text \<open>The segment against the via of the end-to-end scenario (margin 5 + 0 + 0 - 1),
  which collide, and the via against the line of width 10 (margin 5 + 0 + 5 - 1), which
  do not.\<close>

theorem fast_path_margin_witness:
  "ex_mem 1 = Some ex_segment \<and> ex_mem 2 = Some ex_via \<and> ex_mem 5 = Some ex_line
   \<and> GetClearance ex_env 1 2 = 5 \<and> ClearanceEpsilon ex_env = 1
   \<and> m_kind ex_line = LINE_T \<and> width ex_line = 10
   \<and> shape_Collide ex_env (shape ex_via) (shape ex_segment) (5 + 0 + 0 - 1)
   \<and> collideSimple ex_mem ex_env 1 2 (Some ex_ctx)
       = Inr (True, Some (ex_ctx\<lparr>obstacles := [\<lparr>m_head = 2, m_item = 1, m_clearance = 5\<rparr>]\<rparr>))
   \<and> \<not> shape_Collide ex_env (shape ex_line) (shape ex_via) (5 + 0 + 5 - 1)
   \<and> collideSimple ex_mem ex_env 2 5 (Some ex_ctx) = Inr (False, Some ex_ctx)"
proof -
  have h1: "ex_mem 1 = Some ex_segment" "ex_mem 2 = Some ex_via" "(2::nat) \<noteq> 1"
    "\<not> (m_differentNetsOnly (options ex_ctx)
        \<and> (m_net ex_segment = m_net ex_via \<and> 0 \<le> m_net ex_segment
           \<or> isFreePad ex_segment \<or> isFreePad ex_via))"
    "Overlaps (m_layers ex_segment) (m_layers ex_via)"
    "\<not> keepoutExit (m_parent ex_segment) (m_parent ex_via)"
    "\<not> keepoutExit (m_parent ex_via) (m_parent ex_segment)"
    "False = (case IsFlashedOnLayer ex_env of None \<Rightarrow> False
              | Some f \<Rightarrow> \<not> f 1 (Layer ex_via))"
    "False = (case IsFlashedOnLayer ex_env of None \<Rightarrow> False
              | Some f \<Rightarrow> \<not> f 2 (Layer ex_segment))"
    "IsMultilayer (m_layers ex_via) \<or> \<not> False"
    "IsMultilayer (m_layers ex_segment) \<or> \<not> False"
    "ownHoleExit ex_mem 1 ex_segment 2 ex_via = Some False"
    "5 = (if 0 \<le> m_overrideClearance (options ex_ctx)
          then m_overrideClearance (options ex_ctx) else GetClearance ex_env 1 2)"
    "(0::int) \<le> 5"
    "case m_parent ex_segment of None \<Rightarrow> True | Some p \<Rightarrow> GetLayer p \<noteq> Edge_Cuts"
    "\<not> IsInNetTie ex_env 1"
    "- 2147483648 \<le> 5 + (if m_kind ex_segment = LINE_T then width ex_segment sdiv 2 else 0)
                        + (if m_kind ex_via = LINE_T then width ex_via sdiv 2 else 0)
                        - ClearanceEpsilon ex_env"
    "5 + (if m_kind ex_segment = LINE_T then width ex_segment sdiv 2 else 0)
       + (if m_kind ex_via = LINE_T then width ex_via sdiv 2 else 0)
       - ClearanceEpsilon ex_env < 2147483648"
    by (simp_all add: ex_defs Overlaps_def keepoutExit_def ownHoleExit_def)
  have h2: "ex_mem 2 = Some ex_via" "ex_mem 5 = Some ex_line" "(5::nat) \<noteq> 2"
    "\<not> (m_differentNetsOnly (options ex_ctx)
        \<and> (m_net ex_via = m_net ex_line \<and> 0 \<le> m_net ex_via
           \<or> isFreePad ex_via \<or> isFreePad ex_line))"
    "Overlaps (m_layers ex_via) (m_layers ex_line)"
    "\<not> keepoutExit (m_parent ex_via) (m_parent ex_line)"
    "\<not> keepoutExit (m_parent ex_line) (m_parent ex_via)"
    "False = (case IsFlashedOnLayer ex_env of None \<Rightarrow> False
              | Some f \<Rightarrow> \<not> f 2 (Layer ex_line))"
    "False = (case IsFlashedOnLayer ex_env of None \<Rightarrow> False
              | Some f \<Rightarrow> \<not> f 5 (Layer ex_via))"
    "IsMultilayer (m_layers ex_line) \<or> \<not> False"
    "IsMultilayer (m_layers ex_via) \<or> \<not> False"
    "ownHoleExit ex_mem 2 ex_via 5 ex_line = Some False"
    "5 = (if 0 \<le> m_overrideClearance (options ex_ctx)
          then m_overrideClearance (options ex_ctx) else GetClearance ex_env 2 5)"
    "(0::int) \<le> 5"
    "case m_parent ex_via of None \<Rightarrow> True | Some p \<Rightarrow> GetLayer p \<noteq> Edge_Cuts"
    "\<not> IsInNetTie ex_env 2"
    "- 2147483648 \<le> 5 + (if m_kind ex_via = LINE_T then width ex_via sdiv 2 else 0)
                        + (if m_kind ex_line = LINE_T then width ex_line sdiv 2 else 0)
                        - ClearanceEpsilon ex_env"
    "5 + (if m_kind ex_via = LINE_T then width ex_via sdiv 2 else 0)
       + (if m_kind ex_line = LINE_T then width ex_line sdiv 2 else 0)
       - ClearanceEpsilon ex_env < 2147483648"
    by (simp_all add: ex_defs Overlaps_def keepoutExit_def ownHoleExit_def)
  have g: "GetClearance ex_env 1 2 = 5" "ClearanceEpsilon ex_env = 1"
    "m_kind ex_line = LINE_T" "width ex_line = 10"
    "m_kind ex_segment \<noteq> LINE_T" "m_kind ex_via \<noteq> LINE_T"
    "shape_Collide ex_env (shape ex_via) (shape ex_segment) 4"
    "\<not> shape_Collide ex_env (shape ex_line) (shape ex_via) 9"
    "obstacles ex_ctx = []" "GetCollisionQueryScope ex_env \<noteq> CQS_ALL_RULES"
    by (simp_all add: ex_defs)
  from fast_path_margin [OF h1] fast_path_margin [OF h2] h1(1,2) h2(2) g
  show ?thesis by (auto simp: obstacles_insert_def)
qed

section \<open>A negative clearance\<close>

text \<open>
  C7, as amended. With a search context that supplies no override clearance, if the
  resolver returns a negative clearance for the pair, \<^verbatim>\<open>collideSimple\<close> makes no test of
  the two shapes and records no obstacle for them: it returns the flag of the hole
  sub-checks, and the context holds what they recorded. It reports no collision and
  leaves the context as it was when neither item has a hole.
\<close>

theorem negative_clearance:
  assumes "mem this = Some I" and "mem aHead = Some H"
    and "holesInStore mem I" and "holesInStore mem H"
    and "m_overrideClearance (options c) < 0"
    and "GetClearance env this aHead < 0"
  shows "\<exists>found c1. collideSimple mem env this aHead (Some c) = Inr (found, Some c1)
           \<and> holeOutcome I H c found c1
           \<and> (hole I = None \<and> hole H = None \<longrightarrow> \<not> found \<and> c1 = c)"
proof -
  consider (exit) "collideBody mem env this I aHead H (Some c) = Return False (Some c)"
    | (run) lwI lwH tnf onf where "collideBody mem env this I aHead H (Some c) =
         andThen (holeChecks mem env this I aHead H lwI lwH tnf onf (Some c)) (\<lambda>found1 c1.
         andThen (afterHoles mem env this I aHead H lwI lwH tnf onf found1 c1) Return)"
    using collideBody_cases [of mem env this I aHead H c] by blast
  then show ?thesis
  proof cases
    case exit
    then show ?thesis
      using holeOutcome_refl by (auto simp: collideSimple_Some [OF assms(1,2)])
  next
    case run
    obtain found c1 where hc: "holeChecks mem env this I aHead H lwI lwH tnf onf (Some c)
        = Continue found (Some c1)" and out: "holeOutcome I H c found c1"
      using holeChecks_outcome [OF assms(3,4)] by blast
    have nh: "\<not> found \<and> c1 = c" if "hole I = None \<and> hole H = None"
      using that hc holeChecks_no_holes [of I H mem env this aHead lwI lwH tnf onf "Some c"]
      by simp
    have ov: "m_overrideClearance (options c1) < 0"
      using out assms(5) by (simp add: holeOutcome_def)
    from afterHoles_negative [OF assms(3,4) ov assms(6), of lwI lwH tnf onf found]
    show ?thesis
    proof
      assume "afterHoles mem env this I aHead H lwI lwH tnf onf found (Some c1)
                = Return False (Some c1)"
      then have "collideSimple mem env this aHead (Some c) = Inr (False, Some c1)"
        using run hc by (simp add: collideSimple_Some [OF assms(1,2)] andThen_def)
      then show ?thesis using holeOutcome_False [OF out] nh by auto
    next
      assume "afterHoles mem env this I aHead H lwI lwH tnf onf found (Some c1)
                = Continue found (Some c1)"
      then have "collideSimple mem env this aHead (Some c) = Inr (found, Some c1)"
        using run hc by (simp add: collideSimple_Some [OF assms(1,2)] andThen_def)
      then show ?thesis using out nh by auto
    qed
  qed
qed

text \<open>The via against the segment, with a resolver that disables their clearance, and
  the segment against the pad, which have no holes.\<close>

theorem negative_clearance_witness:
  "ex_mem 2 = Some ex_via \<and> ex_mem 1 = Some ex_segment
   \<and> holesInStore ex_mem ex_via \<and> holesInStore ex_mem ex_segment
   \<and> m_overrideClearance (options ex_ctx) < 0 \<and> GetClearance ex_env_negative 2 1 < 0
   \<and> (\<exists>found c1. collideSimple ex_mem ex_env_negative 2 1 (Some ex_ctx) = Inr (found, Some c1)
         \<and> holeOutcome ex_via ex_segment ex_ctx found c1)"
proof -
  have h: "ex_mem 2 = Some ex_via" "ex_mem 1 = Some ex_segment"
    "holesInStore ex_mem ex_via" "holesInStore ex_mem ex_segment"
    "m_overrideClearance (options ex_ctx) < 0" "GetClearance ex_env_negative 2 1 < 0"
    by (simp_all add: ex_defs holesInStore_def)
  from negative_clearance [OF h] h show ?thesis by blast
qed

text \<open>
  The claim as stated fails: the node asks for all rules, the hole of the via lies on
  the segment, and although the clearance of the pair is negative the function reports
  a collision, with the hole's obstacle in the context.
\<close>

theorem negative_clearance_counterexample:
  "m_overrideClearance (options ex_ctx) < 0 \<and> GetClearance ex_env_negative 2 1 < 0
   \<and> collideSimple ex_mem ex_env_negative 2 1 (Some ex_ctx)
       = Inr (True, Some (ex_ctx\<lparr>obstacles := [\<lparr>m_head = 1, m_item = 3, m_clearance = 5\<rparr>]\<rparr>))"
  by (simp add: collide_defs ex_defs)

section \<open>Castellations and net-ties\<close>

text \<open>
  C8, as amended. With a search context and a clearance that is not negative, if the
  slow test finds the two shapes colliding at a contact point, and either this item's
  board object is on the edge-cuts layer and the point is inside an edge exclusion, or
  this item is in a net-tie and the point is inside a net-tie exclusion of the pair,
  then \<^verbatim>\<open>collideSimple\<close> returns false and records no obstacle for the two shapes; the
  context holds what the hole sub-checks recorded before, and is as it was when neither
  item has a hole.
\<close>

theorem exclusion_suppression:
  assumes "mem this = Some I" and "mem aHead = Some H"
    and "holesInStore mem I" and "holesInStore mem H"
    and "clearance = (if 0 \<le> m_overrideClearance (options c)
                      then m_overrideClearance (options c)
                      else GetClearance env this aHead)"
    and "0 \<le> clearance"
    and "shape_CollideAt env (shape H) (shape I)
           (int32 (int32 (int32 (clearance + (if m_kind H = LINE_T then width H sdiv 2 else 0))
                          + (if m_kind I = LINE_T then width I sdiv 2 else 0))
                   - ClearanceEpsilon env)) = Some pos"
    and "((case m_parent I of None \<Rightarrow> False | Some p \<Rightarrow> GetLayer p = Edge_Cuts)
            \<and> QueryEdgeExclusions env pos)
         \<or> (IsInNetTie env this \<and> IsNetTieExclusion env aHead pos this)"
  shows "\<exists>c1. collideSimple mem env this aHead (Some c) = Inr (False, Some c1)
           \<and> holeOutcome I H c False c1
           \<and> (hole I = None \<and> hole H = None \<longrightarrow> c1 = c)"
proof -
  let ?lwI = "if m_kind I = LINE_T then width I sdiv 2 else 0"
  let ?lwH = "if m_kind H = LINE_T then width H sdiv 2 else 0"
  let ?tnf = "case IsFlashedOnLayer env of None \<Rightarrow> False | Some f \<Rightarrow> \<not> f this (Layer H)"
  let ?onf = "case IsFlashedOnLayer env of None \<Rightarrow> False | Some f \<Rightarrow> \<not> f aHead (Layer I)"
  from collideBody_cases [of mem env this I aHead H c] show ?thesis
  proof
    assume "collideBody mem env this I aHead H (Some c) = Return False (Some c)"
    then show ?thesis
      using holeOutcome_refl by (auto simp: collideSimple_Some [OF assms(1,2)])
  next
    assume run: "collideBody mem env this I aHead H (Some c) =
      andThen (holeChecks mem env this I aHead H ?lwI ?lwH ?tnf ?onf (Some c)) (\<lambda>found1 c1.
      andThen (afterHoles mem env this I aHead H ?lwI ?lwH ?tnf ?onf found1 c1) Return)"
    obtain found c1 where hc: "holeChecks mem env this I aHead H ?lwI ?lwH ?tnf ?onf (Some c)
        = Continue found (Some c1)" and out: "holeOutcome I H c found c1"
      using holeChecks_outcome [OF assms(3,4)] by blast
    have nh: "c1 = c" if "hole I = None \<and> hole H = None"
      using that hc holeChecks_no_holes [of I H mem env this aHead ?lwI ?lwH ?tnf ?onf "Some c"]
      by simp
    have cl: "clearance = (if 0 \<le> m_overrideClearance (options c1)
                      then m_overrideClearance (options c1)
                      else GetClearance env this aHead)"
      using out assms(5) by (simp add: holeOutcome_def)
    have "afterHoles mem env this I aHead H ?lwI ?lwH ?tnf ?onf found (Some c1)
            = Return False (Some c1)"
      using assms(3,4) cl assms(6,7,8) by (rule afterHoles_suppressed)
    then have "collideSimple mem env this aHead (Some c) = Inr (False, Some c1)"
      using run hc by (simp add: collideSimple_Some [OF assms(1,2)] andThen_def)
    then show ?thesis using holeOutcome_False [OF out] nh by auto
  qed
qed

text \<open>The board outline against the line, at a castellation.\<close>

theorem exclusion_suppression_witness:
  "ex_mem 13 = Some ex_edge \<and> ex_mem 5 = Some ex_line
   \<and> m_parent ex_edge = Some ex_board_edge \<and> GetLayer ex_board_edge = Edge_Cuts
   \<and> shape_CollideAt ex_env_edge (shape ex_line) (shape ex_edge) (5 + 5 + 0 - 1) = Some (0, 45)
   \<and> QueryEdgeExclusions ex_env_edge (0, 45)
   \<and> collideSimple ex_mem ex_env_edge 13 5 (Some ex_ctx) = Inr (False, Some ex_ctx)"
proof -
  have h: "ex_mem 13 = Some ex_edge" "ex_mem 5 = Some ex_line"
    "holesInStore ex_mem ex_edge" "holesInStore ex_mem ex_line"
    "5 = (if 0 \<le> m_overrideClearance (options ex_ctx)
          then m_overrideClearance (options ex_ctx) else GetClearance ex_env_edge 13 5)"
    "(0::int) \<le> 5"
    "shape_CollideAt ex_env_edge (shape ex_line) (shape ex_edge)
       (int32 (int32 (int32 (5 + (if m_kind ex_line = LINE_T then width ex_line sdiv 2 else 0))
                      + (if m_kind ex_edge = LINE_T then width ex_edge sdiv 2 else 0))
               - ClearanceEpsilon ex_env_edge)) = Some (0, 45)"
    "((case m_parent ex_edge of None \<Rightarrow> False | Some p \<Rightarrow> GetLayer p = Edge_Cuts)
        \<and> QueryEdgeExclusions ex_env_edge (0, 45))
     \<or> (IsInNetTie ex_env_edge 13 \<and> IsNetTieExclusion ex_env_edge 5 (0, 45) 13)"
    by (simp_all add: ex_defs holesInStore_def int32_def)
  have g: "m_parent ex_edge = Some ex_board_edge" "GetLayer ex_board_edge = Edge_Cuts"
    "shape_CollideAt ex_env_edge (shape ex_line) (shape ex_edge) (5 + 5 + 0 - 1) = Some (0, 45)"
    "QueryEdgeExclusions ex_env_edge (0, 45)"
    "hole ex_edge = None" "hole ex_line = None"
    by (simp_all add: ex_defs)
  from exclusion_suppression [OF h] h(1,2) g show ?thesis by auto
qed

text \<open>
  The claim as stated fails: the node asks for all rules and the via is in a net-tie
  that excludes its contact with the segment; the function returns false, yet the
  hole of the via lies on the segment and its obstacle is in the context.
\<close>

theorem exclusion_counterexample:
  "IsInNetTie ex_env_tie 2
   \<and> shape_CollideAt ex_env_tie (shape ex_segment) (shape ex_via)
         (GetClearance ex_env_tie 2 1 - ClearanceEpsilon ex_env_tie) = Some (50, 5)
   \<and> IsNetTieExclusion ex_env_tie 1 (50, 5) 2
   \<and> collideSimple ex_mem ex_env_tie 2 1 (Some ex_ctx)
       = Inr (False, Some (ex_ctx\<lparr>obstacles := [\<lparr>m_head = 1, m_item = 3, m_clearance = 5\<rparr>]\<rparr>))"
  by (simp add: collide_defs ex_defs)

section \<open>The same-net filter\<close>

text \<open>
  C9. When the context asks for different nets only, two items that carry the same
  non-negative net (a via attached to the end of a line carrying the net of its line)
  do not collide: \<^verbatim>\<open>collideSimple\<close> and \<^verbatim>\<open>Collide\<close> return false and leave the context
  as it was, whatever the shapes and the clearance. The items need not be distinct, and
  the filter comes before the one for free pads, so it holds for them too.
\<close>

theorem same_net_suppression:
  assumes "mem a = Some A" and "mem b = Some B"
    and "m_differentNetsOnly (options c)"
    and "m_net A = m_net B" and "0 \<le> m_net A"
    and "viaCarriesNet mem A" and "viaCarriesNet mem B"
  shows "collideSimple mem env a b (Some c) = Inr (False, Some c)
         \<and> Collide mem env a b (Some c) = Inr (False, Some c)"
proof -
  have s: "collideSimple mem env a b (Some c) = Inr (False, Some c)"
    using assms(1-5) by (rule net_filter)
  have v1: "collideVia mem env a b (Some c) = Inr (False, Some c)"
    using assms(1-6) by (rule collideVia_same_net)
  have v2: "collideVia mem env b a (Some c) = Inr (False, Some c)"
    using assms(2) assms(1) assms(3) assms(4) [symmetric] _ assms(7)
    by (rule collideVia_same_net) (use assms(4,5) in simp)
  show ?thesis using s v1 v2 by (simp add: Collide_from_parts)
qed

text \<open>The two overlapping segments of net 1, which collide without the option, and the
  line with its via against the segment.\<close>

theorem same_net_suppression_witness:
  "ex_mem 1 = Some ex_segment \<and> ex_mem 11 = Some ex_segment2 \<and> ex_mem 5 = Some ex_line
   \<and> m_differentNetsOnly (options ex_ctx_nets)
   \<and> m_net ex_segment = m_net ex_segment2 \<and> m_net ex_line = m_net ex_segment
   \<and> 0 \<le> m_net ex_segment
   \<and> viaCarriesNet ex_mem ex_line
   \<and> shape_Collide ex_env (shape ex_segment2) (shape ex_segment) 0
   \<and> Collide ex_mem ex_env 1 11 (Some ex_ctx)
       = Inr (True, Some (ex_ctx\<lparr>obstacles := [\<lparr>m_head = 11, m_item = 1, m_clearance = 5\<rparr>]\<rparr>))
   \<and> Collide ex_mem ex_env 1 11 (Some ex_ctx_nets) = Inr (False, Some ex_ctx_nets)
   \<and> Collide ex_mem ex_env 5 1 (Some ex_ctx_nets) = Inr (False, Some ex_ctx_nets)"
proof -
  have h1: "ex_mem 1 = Some ex_segment" "ex_mem 11 = Some ex_segment2"
    "m_differentNetsOnly (options ex_ctx_nets)"
    "m_net ex_segment = m_net ex_segment2" "0 \<le> m_net ex_segment"
    "viaCarriesNet ex_mem ex_segment" "viaCarriesNet ex_mem ex_segment2"
    by (simp_all add: ex_defs viaCarriesNet_def)
  have h2: "ex_mem 5 = Some ex_line" "ex_mem 1 = Some ex_segment"
    "m_differentNetsOnly (options ex_ctx_nets)"
    "m_net ex_line = m_net ex_segment" "0 \<le> m_net ex_line"
    "viaCarriesNet ex_mem ex_line" "viaCarriesNet ex_mem ex_segment"
    by (simp_all add: ex_defs viaCarriesNet_def)
  have g: "shape_Collide ex_env (shape ex_segment2) (shape ex_segment) 0"
    by (simp add: ex_defs)
  have open_nets: "Collide ex_mem ex_env 1 11 (Some ex_ctx)
       = Inr (True, Some (ex_ctx\<lparr>obstacles := [\<lparr>m_head = 11, m_item = 1, m_clearance = 5\<rparr>]\<rparr>))"
    by (simp add: collide_defs ex_defs)
  from same_net_suppression [OF h1, of ex_env] same_net_suppression [OF h2, of ex_env]
       h1 h2 g open_nets
  show ?thesis by simp
qed

section \<open>De-duplication: what the helper returns\<close>

lemma dedupOuter_empty: "dedupOuter mem items [] = Inr []"
  by (induction items) (simp_all add: set_begin_def)

text \<open>
  C10. For every store and every input vector of items, \<^verbatim>\<open>deduplicate\<close> returns the
  empty set: the candidate is inserted only inside the loop over the result set, which
  starts empty, so the body of that loop never runs and nothing is ever inserted.
\<close>

theorem deduplicate_returns_empty: "deduplicate mem items = Inr []"
  by (simp add: deduplicate_def dedupOuter_empty)

end
